theory Spec2Isabelle
  imports Main "HOL-Library.AList"
begin

section \<open>JavaScript values\<close>

text \<open>
  The strategy of \<^verbatim>\<open>lib/passport-linkedin-token-oauth2/strategy.js\<close> works on
  untyped JavaScript values: the request, the documents returned by \<^verbatim>\<open>JSON.parse\<close>,
  the profile it builds and the errors it hands on. They are modelled by one datatype.
  An object is the list of its own properties in insertion order; a read takes the first
  entry of a key.

  A number is given by the two things the source can observe of it: its sign, which
  decides truthiness and the comparison \<^verbatim>\<open>> 0\<close>, and the text that \<^verbatim>\<open>String\<close> prints for
  it, which is what a concatenation and a computed property name see. No arithmetic is
  done in the source.

  \<open>JBuiltin\<close> is an object or function that the engine provides and a read reaches
  through the prototype chain; it is named by its path. The source reads no property of
  such a value.
\<close>

datatype num_sign = Negative | Zero | Positive

datatype jsval =
    JUndefined
  | JNull
  | JBool bool
  | JNum num_sign string
  | JStr string
  | JArr "jsval list"
  | JObj "(string \<times> jsval) list"
  | JBuiltin string

type_synonym object = "(string \<times> jsval) list"

text \<open>Truthiness, as tested by \<^verbatim>\<open>if (v)\<close>, \<^verbatim>\<open>!v\<close>, \<^verbatim>\<open>&&\<close> and \<^verbatim>\<open>||\<close>.\<close>

fun truthy :: "jsval \<Rightarrow> bool" where
  "truthy JUndefined = False"
| "truthy JNull = False"
| "truthy (JBool b) = b"
| "truthy (JNum s t) = (s \<noteq> Zero)"
| "truthy (JStr s) = (s \<noteq> [])"
| "truthy (JArr xs) = True"
| "truthy (JObj kvs) = True"
| "truthy (JBuiltin path) = True"

fun nullish :: "jsval \<Rightarrow> bool" where
  "nullish JUndefined = True"
| "nullish JNull = True"
| "nullish v = False"

text \<open>
  The exception raised by the engine when a property of \<^verbatim>\<open>undefined\<close> or
  \<^verbatim>\<open>null\<close> is read, when a value that is not a function is called, or when an
  object cannot be converted to a primitive value. Its message depends on the engine and
  is left out.
\<close>

definition TypeError :: jsval where
  "TypeError = JObj [(''name'', JStr ''TypeError'')]"

text \<open>
  Evaluation of an expression either throws (\<open>Inl\<close> the thrown value) or gives a value.
  \<open>andThen\<close> sequences two evaluations: the second is not run when the first throws.
\<close>

type_synonym 'a thrown_or = "jsval + 'a"

definition andThen :: "'a thrown_or \<Rightarrow> ('a \<Rightarrow> 'b thrown_or) \<Rightarrow> 'b thrown_or" where
  "andThen m f = (case m of Inl e \<Rightarrow> Inl e | Inr v \<Rightarrow> f v)"

subsection \<open>Decimal numerals\<close>

definition digit_char :: "nat \<Rightarrow> char" where
  "digit_char d = ''0123456789'' ! (d mod 10)"

fun decimal :: "nat \<Rightarrow> string" where
  "decimal n = (if n < 10 then [digit_char n] else decimal (n div 10) @ [digit_char (n mod 10)])"

declare decimal.simps [simp del]

text \<open>The number of elements of an array or of characters of a string, as a number.\<close>

definition count :: "nat \<Rightarrow> jsval" where
  "count n = JNum (if n = 0 then Zero else Positive) (decimal n)"

definition digit_value :: "char \<Rightarrow> nat option" where
  "digit_value c =
     map_of [(CHR ''0'', 0), (CHR ''1'', 1), (CHR ''2'', 2), (CHR ''3'', 3), (CHR ''4'', 4),
             (CHR ''5'', 5), (CHR ''6'', 6), (CHR ''7'', 7), (CHR ''8'', 8), (CHR ''9'', 9)] c"

fun digits_value :: "nat \<Rightarrow> string \<Rightarrow> nat option" where
  "digits_value acc [] = Some acc"
| "digits_value acc (c # cs) =
     (case digit_value c of None \<Rightarrow> None | Some d \<Rightarrow> digits_value (10 * acc + d) cs)"

text \<open>
  A property name is an array index when it is the canonical decimal numeral of a
  natural number: \<^verbatim>\<open>"0"\<close>, \<^verbatim>\<open>"17"\<close>, but not \<^verbatim>\<open>"01"\<close> and not \<^verbatim>\<open>""\<close>.
\<close>

definition array_index :: "string \<Rightarrow> nat option" where
  "array_index k =
     (if k = [] \<or> (hd k = CHR ''0'' \<and> tl k \<noteq> []) then None else digits_value 0 k)"

subsection \<open>Reading a property\<close>

text \<open>
  The properties that every value inherits from \<^verbatim>\<open>Object.prototype\<close> and whose names
  hold an underscore: the four legacy accessor functions and \<^verbatim>\<open>__proto__\<close>, which gives
  the prototype of the value read from. The one computed property name of the source,
  \<^verbatim>\<open>language + '_' + country\<close>, always holds an underscore, so these are the inherited
  properties it can reach; the fixed names the source reads are own properties,
  \<^verbatim>\<open>length\<close> and the index \<^verbatim>\<open>0\<close>.
\<close>

definition legacy_accessors :: "string list" where
  "legacy_accessors =
     [''__defineGetter__'', ''__defineSetter__'', ''__lookupGetter__'', ''__lookupSetter__'']"

fun prototype_of :: "jsval \<Rightarrow> string" where
  "prototype_of (JArr xs) = ''Array.prototype''"
| "prototype_of (JStr s) = ''String.prototype''"
| "prototype_of (JNum s t) = ''Number.prototype''"
| "prototype_of (JBool b) = ''Boolean.prototype''"
| "prototype_of v = ''Object.prototype''"

definition inherited :: "jsval \<Rightarrow> string \<Rightarrow> jsval" where
  "inherited v k =
     (if k \<in> set legacy_accessors then JBuiltin (''Object.prototype.'' @ k)
      else if k = ''__proto__'' then JBuiltin (prototype_of v)
      else JUndefined)"

text \<open>
  \<^verbatim>\<open>v[k]\<close> and \<^verbatim>\<open>v.k\<close>. Reading from \<^verbatim>\<open>undefined\<close> or \<^verbatim>\<open>null\<close> throws; an
  object gives its own property, an array and a string give their \<^verbatim>\<open>length\<close> and
  their elements; a name that is not an own property gives what is inherited under it.
\<close>

fun js_get :: "jsval \<Rightarrow> string \<Rightarrow> jsval thrown_or" where
  "js_get JUndefined k = Inl TypeError"
| "js_get JNull k = Inl TypeError"
| "js_get (JObj kvs) k =
     Inr (case map_of kvs k of Some v \<Rightarrow> v | None \<Rightarrow> inherited (JObj kvs) k)"
| "js_get (JArr xs) k =
     Inr (if k = ''length'' then count (length xs)
          else case array_index k of
                 Some i \<Rightarrow> if i < length xs then xs ! i else JUndefined
               | None \<Rightarrow> inherited (JArr xs) k)"
| "js_get (JStr s) k =
     Inr (if k = ''length'' then count (length s)
          else case array_index k of
                 Some i \<Rightarrow> if i < length s then JStr [s ! i] else JUndefined
               | None \<Rightarrow> inherited (JStr s) k)"
| "js_get (JBool b) k = Inr (inherited (JBool b) k)"
| "js_get (JNum s t) k = Inr (inherited (JNum s t) k)"
| "js_get (JBuiltin path) k = Inr JUndefined"

text \<open>\<^verbatim>\<open>o.k = v\<close> on an object: the property is replaced in place or appended.\<close>

definition js_set :: "object \<Rightarrow> string \<Rightarrow> jsval \<Rightarrow> object" where
  "js_set obj k v = AList.update k v obj"

subsection \<open>Conversion to a primitive value\<close>

text \<open>
  The text of the built-in values, as Node prints them.
\<close>

definition builtin_text :: "string \<Rightarrow> string" where
  "builtin_text path =
     (if path = ''Object.prototype'' then ''[object Object]''
      else if path = ''Array.prototype'' then []
      else if path = ''String.prototype'' then []
      else if path = ''Number.prototype'' then ''0''
      else if path = ''Boolean.prototype'' then ''false''
      else ''function '' @ drop 17 path @ ''() { [native code] }'')"

text \<open>
  \<^verbatim>\<open>String(v)\<close>, as applied by \<^verbatim>\<open>+\<close> next to a string and by a computed property
  name. An object parsed from JSON prints as \<^verbatim>\<open>[object Object]\<close>, unless it has an own
  property \<^verbatim>\<open>toString\<close>: that one is no function and hides the inherited method, and
  the conversion throws. An array joins its elements with commas, \<^verbatim>\<open>null\<close> and
  \<^verbatim>\<open>undefined\<close> elements giving the empty string.
\<close>

fun js_to_string :: "jsval \<Rightarrow> string thrown_or"
  and join_elements :: "jsval list \<Rightarrow> string thrown_or" where
  "js_to_string JUndefined = Inr ''undefined''"
| "js_to_string JNull = Inr ''null''"
| "js_to_string (JBool b) = Inr (if b then ''true'' else ''false'')"
| "js_to_string (JNum s t) = Inr t"
| "js_to_string (JStr s) = Inr s"
| "js_to_string (JArr xs) = join_elements xs"
| "js_to_string (JObj kvs) =
     (case map_of kvs ''toString'' of
        None \<Rightarrow> Inr ''[object Object]''
      | Some v \<Rightarrow> Inl TypeError)"
| "js_to_string (JBuiltin path) = Inr (builtin_text path)"
| "join_elements [] = Inr []"
| "join_elements (x # xs) =
     (case (if nullish x then Inr [] else js_to_string x) of
        Inl e \<Rightarrow> Inl e
      | Inr s \<Rightarrow>
          (case xs of
             [] \<Rightarrow> Inr s
           | y # ys \<Rightarrow>
               (case join_elements xs of Inl e \<Rightarrow> Inl e | Inr t \<Rightarrow> Inr (s @ '','' @ t))))"

text \<open>
  \<^verbatim>\<open>a + b\<close> where one operand is a string: both are converted, the left one first, and
  concatenated.
\<close>

definition js_concat :: "jsval \<Rightarrow> jsval \<Rightarrow> jsval thrown_or" where
  "js_concat a b =
     andThen (js_to_string a) (\<lambda>s. andThen (js_to_string b) (\<lambda>t. Inr (JStr (s @ t))))"

text \<open>
  \<^verbatim>\<open>v > 0\<close> converts \<open>v\<close> to a number first. How the engine reads a string as a
  number is not computed here: \<open>positive\<close> says for which strings \<^verbatim>\<open>Number(s) > 0\<close>
  holds, and is a parameter. An array is converted through its text; an object parsed
  from JSON is not a number, and the conversion throws when an own \<^verbatim>\<open>toString\<close>
  hides the inherited method.
\<close>

fun js_gt0 :: "(string \<Rightarrow> bool) \<Rightarrow> jsval \<Rightarrow> bool thrown_or" where
  "js_gt0 positive JUndefined = Inr False"
| "js_gt0 positive JNull = Inr False"
| "js_gt0 positive (JBool b) = Inr b"
| "js_gt0 positive (JNum s t) = Inr (s = Positive)"
| "js_gt0 positive (JStr s) = Inr (positive s)"
| "js_gt0 positive (JArr xs) =
     (case js_to_string (JArr xs) of Inl e \<Rightarrow> Inl e | Inr t \<Rightarrow> Inr (positive t))"
| "js_gt0 positive (JObj kvs) =
     (case map_of kvs ''toString'' of None \<Rightarrow> Inr False | Some v \<Rightarrow> Inl TypeError)"
| "js_gt0 positive (JBuiltin path) = Inr False"

subsection \<open>Array.prototype.reduce\<close>

fun js_reduce :: "('a \<Rightarrow> jsval \<Rightarrow> 'a thrown_or) \<Rightarrow> 'a \<Rightarrow> jsval list \<Rightarrow> 'a thrown_or" where
  "js_reduce f memo [] = Inr memo"
| "js_reduce f memo (el # els) =
     (case f memo el of Inl e \<Rightarrow> Inl e | Inr memo' \<Rightarrow> js_reduce f memo' els)"

text \<open>
  \<^verbatim>\<open>v.reduce(f, init)\<close>: only an array has the method; on any other value that can be
  read, \<^verbatim>\<open>v.reduce\<close> is not a function and the call throws.
\<close>

definition reduce :: "jsval \<Rightarrow> ('a \<Rightarrow> jsval \<Rightarrow> 'a thrown_or) \<Rightarrow> 'a \<Rightarrow> 'a thrown_or" where
  "reduce v f init = (case v of JArr xs \<Rightarrow> js_reduce f init xs | _ \<Rightarrow> Inl TypeError)"

section \<open>The profile normalizer\<close>

text \<open>
  \<^verbatim>\<open>function getLocalizedName(name) {
    return name.localized[name.preferredLocale.language + '_' + name.preferredLocale.country];
  }\<close>
\<close>

definition getLocalizedName :: "jsval \<Rightarrow> jsval thrown_or" where
  "getLocalizedName name =
     andThen (js_get name ''localized'') (\<lambda>localized.
     andThen (js_get name ''preferredLocale'') (\<lambda>preferredLocale.
     andThen (js_get preferredLocale ''language'') (\<lambda>language.
     andThen (js_concat language (JStr ''_'')) (\<lambda>prefix.
     andThen (js_get preferredLocale ''country'') (\<lambda>country.
     andThen (js_concat prefix country) (\<lambda>key.
     andThen (js_to_string key) (\<lambda>k. js_get localized k)))))))"

text \<open>
  The callback that \<^verbatim>\<open>addEmails\<close> passes to \<^verbatim>\<open>reduce\<close>:
  \<^verbatim>\<open>if (el['handle~'] && el['handle~'].emailAddress) {
    memo.push({value: el['handle~'].emailAddress});
  }
  return memo;\<close>
\<close>

definition addEmails_step :: "jsval list \<Rightarrow> jsval \<Rightarrow> jsval list thrown_or" where
  "addEmails_step memo el =
     andThen (js_get el ''handle~'') (\<lambda>handle.
       if truthy handle then
         andThen (js_get handle ''emailAddress'') (\<lambda>emailAddress.
           if truthy emailAddress then Inr (memo @ [JObj [(''value'', emailAddress)]])
           else Inr memo)
       else Inr memo)"

definition addEmails :: "object \<Rightarrow> jsval \<Rightarrow> object thrown_or" where
  "addEmails profile emailJson =
     andThen (js_get emailJson ''elements'') (\<lambda>elements.
       if truthy elements then
         andThen (reduce elements addEmails_step [])
           (\<lambda>emails. Inr (js_set profile ''emails'' (JArr emails)))
       else Inr profile)"

text \<open>
  The callback that \<^verbatim>\<open>addPhotos\<close> passes to \<^verbatim>\<open>reduce\<close>:
  \<^verbatim>\<open>if (el && el.identifiers && el.identifiers.length > 0) {
    memo.push({value: el.identifiers[0].identifier}); // Keep the first pic for now
  }
  return memo;\<close>
\<close>

definition addPhotos_step ::
  "(string \<Rightarrow> bool) \<Rightarrow> jsval list \<Rightarrow> jsval \<Rightarrow> jsval list thrown_or" where
  "addPhotos_step positive memo el =
     (if truthy el then
        andThen (js_get el ''identifiers'') (\<lambda>identifiers.
          if truthy identifiers then
            andThen (js_get identifiers ''length'') (\<lambda>len.
            andThen (js_gt0 positive len) (\<lambda>some.
              if some then
                andThen (js_get identifiers ''0'') (\<lambda>first.
                andThen (js_get first ''identifier'') (\<lambda>identifier.
                  Inr (memo @ [JObj [(''value'', identifier)]])))
              else Inr memo))
          else Inr memo)
      else Inr memo)"

definition addPhotos :: "(string \<Rightarrow> bool) \<Rightarrow> object \<Rightarrow> jsval \<Rightarrow> object thrown_or" where
  "addPhotos positive profile profileJson =
     andThen (js_get profileJson ''profilePicture'') (\<lambda>profilePicture.
       if \<not> truthy profilePicture then Inr profile
       else andThen (js_get profilePicture ''displayImage~'') (\<lambda>displayImage.
         if \<not> truthy displayImage then Inr profile
         else andThen (js_get displayImage ''elements'') (\<lambda>elements.
           if \<not> truthy elements then Inr profile
           else andThen (js_get elements ''length'') (\<lambda>len.
                andThen (js_gt0 positive len) (\<lambda>some.
             if \<not> some then Inr profile
             else andThen (reduce elements (addPhotos_step positive) [])
               (\<lambda>photos. Inr (js_set profile ''photos'' (JArr photos))))))))"

section \<open>The strategy and its collaborators\<close>

text \<open>
  A request is processed in one logical flow: every callback is run where the source
  passes it on, and the effects on the collaborators are recorded in a \<open>world\<close>: the
  name under which the OAuth2 client presents the token, the GET requests issued through
  the client (URL and token, in order), and the calls of the host's three sinks.
\<close>

datatype sink = Fail jsval | Error jsval | Success jsval jsval

record world =
  accessTokenName :: string
  gets :: "(string \<times> jsval) list"
  sinks :: "sink list"

text \<open>A piece of the flow either returns or lets an exception escape.\<close>

datatype outcome = Returned world | Threw jsval world

text \<open>
  The value of the option \<^verbatim>\<open>skipUserProfile\<close>, kept in \<^verbatim>\<open>this._skipUserProfile\<close>:
  a plain value, or a function. A function is given by the number of its declared
  parameters (its \<^verbatim>\<open>length\<close>), by the value it returns for a list of arguments, and by
  the pair \<^verbatim>\<open>(err, skip)\<close> it passes to the callback that follows these arguments.
\<close>

datatype skip_setting =
    SkipValue jsval
  | SkipFunction nat "jsval list \<Rightarrow> jsval" "jsval list \<Rightarrow> jsval \<times> jsval"

text \<open>
  The fields of a \<^verbatim>\<open>LinkedinTokenStrategy\<close> that the methods read, with the
  collaborators by what they answer: \<open>verify\<close> gives the \<^verbatim>\<open>(err, user, info)\<close> that the
  application passes to \<^verbatim>\<open>verified\<close> for the arguments it is called with;
  \<open>oauth2_reply\<close> gives the \<^verbatim>\<open>(err, body)\<close> that \<^verbatim>\<open>this._oauth2.get\<close> passes to its
  callback for a URL and a token, in the world the request is made in; \<open>JSON_parse\<close> is
  \<^verbatim>\<open>JSON.parse\<close>, which throws on a malformed document, and \<open>Number_positive\<close> says
  for which strings \<^verbatim>\<open>Number(s) > 0\<close> holds. Each collaborator calls its callback once
  and does not throw.
\<close>

record LinkedinTokenStrategy =
  passReqToCallback :: jsval
  profileUrl :: string
  emailUrl :: string
  skipUserProfile :: skip_setting
  verify :: "jsval list \<Rightarrow> jsval \<times> jsval \<times> jsval"
  oauth2_reply :: "world \<Rightarrow> string \<Rightarrow> jsval \<Rightarrow> jsval \<times> string"
  JSON_parse :: "string \<Rightarrow> jsval thrown_or"
  Number_positive :: "string \<Rightarrow> bool"

text \<open>
  The sinks of the host pipeline, \<^verbatim>\<open>this.fail(info)\<close>, \<^verbatim>\<open>this.error(err)\<close> and
  \<^verbatim>\<open>this.success(user, info)\<close>: each call is recorded and returns. The OAuth2 client
  \<^verbatim>\<open>this._oauth2\<close> keeps the name set by \<^verbatim>\<open>setAccessTokenName\<close>; its \<^verbatim>\<open>get\<close> records
  the request and runs the callback on the provider's reply.
\<close>

definition fail :: "jsval \<Rightarrow> world \<Rightarrow> outcome" where
  "fail challenge w = Returned (w\<lparr>sinks := sinks w @ [Fail challenge]\<rparr>)"

definition error :: "jsval \<Rightarrow> world \<Rightarrow> outcome" where
  "error err w = Returned (w\<lparr>sinks := sinks w @ [Error err]\<rparr>)"

definition success :: "jsval \<Rightarrow> jsval \<Rightarrow> world \<Rightarrow> outcome" where
  "success user info w = Returned (w\<lparr>sinks := sinks w @ [Success user info]\<rparr>)"

definition setAccessTokenName :: "string \<Rightarrow> world \<Rightarrow> world" where
  "setAccessTokenName name w = w\<lparr>accessTokenName := name\<rparr>"

definition oauth2_get ::
  "LinkedinTokenStrategy \<Rightarrow> string \<Rightarrow> jsval \<Rightarrow> (jsval \<Rightarrow> string \<Rightarrow> world \<Rightarrow> outcome) \<Rightarrow>
     world \<Rightarrow> outcome" where
  "oauth2_get that url accessToken callback w =
     (case oauth2_reply that w url accessToken of
        (err, body) \<Rightarrow> callback err body (w\<lparr>gets := gets w @ [(url, accessToken)]\<rparr>))"

text \<open>
  Modelled from the spec: \<^verbatim>\<open>InternalOAuthError\<close> of the package passport-oauth, which
  wraps a stage-identifying message and the provider-specific cause.
\<close>

definition InternalOAuthError :: "string \<Rightarrow> jsval \<Rightarrow> jsval" where
  "InternalOAuthError message err =
     JObj [(''name'', JStr ''InternalOAuthError''), (''message'', JStr message),
           (''oauthError'', err)]"

definition try_catch ::
  "(world \<Rightarrow> outcome) \<Rightarrow> (jsval \<Rightarrow> world \<Rightarrow> outcome) \<Rightarrow> world \<Rightarrow> outcome" where
  "try_catch body handler w =
     (case body w of Returned w' \<Rightarrow> Returned w' | Threw e w' \<Rightarrow> handler e w')"

section \<open>userProfile\<close>

text \<open>
  The statements of the \<^verbatim>\<open>try\<close> block of \<^verbatim>\<open>userProfile\<close> before the call of
  \<^verbatim>\<open>done\<close>: both bodies are parsed and the profile is built. In the object literal of
  \<^verbatim>\<open>profile.name\<close> the family name is resolved before the given name.
\<close>

definition userProfile_build :: "LinkedinTokenStrategy \<Rightarrow> string \<Rightarrow> string \<Rightarrow> jsval thrown_or" where
  "userProfile_build that profileBody emailBody =
     andThen (JSON_parse that profileBody) (\<lambda>profileJson.
     andThen (JSON_parse that emailBody) (\<lambda>emailJson.
     andThen (js_get profileJson ''id'') (\<lambda>ident.
     andThen (js_get profileJson ''lastName'') (\<lambda>lastName.
     andThen (getLocalizedName lastName) (\<lambda>familyName.
     andThen (js_get profileJson ''firstName'') (\<lambda>firstName.
     andThen (getLocalizedName firstName) (\<lambda>givenName.
     andThen (js_concat givenName (JStr '' '')) (\<lambda>given.
     andThen (js_concat given familyName) (\<lambda>displayName.
     andThen (addEmails
                (js_set
                  (js_set
                    (js_set [(''provider'', JStr ''linkedin'')] ''id'' ident)
                    ''name'' (JObj [(''familyName'', familyName), (''givenName'', givenName)]))
                  ''displayName'' displayName)
                emailJson) (\<lambda>profile1.
     andThen (addPhotos (Number_positive that) profile1 profileJson) (\<lambda>profile2.
       Inr (JObj (js_set (js_set profile2 ''_raw'' (JStr profileBody))
                    ''_json'' profileJson)))))))))))))"

definition userProfile ::
  "LinkedinTokenStrategy \<Rightarrow> jsval \<Rightarrow> (jsval \<Rightarrow> jsval \<Rightarrow> world \<Rightarrow> outcome) \<Rightarrow> world \<Rightarrow> outcome" where
  "userProfile that accessToken done w =
     oauth2_get that (profileUrl that) accessToken
       (\<lambda>profileErr profileBody.
          if truthy profileErr then
            done (InternalOAuthError ''failed to fetch user profile'' profileErr) JUndefined
          else
            oauth2_get that (emailUrl that) accessToken
              (\<lambda>emailErr emailBody.
                 if truthy emailErr then
                   done (InternalOAuthError ''failed to fetch user email'' emailErr) JUndefined
                 else
                   try_catch
                     (\<lambda>w'. case userProfile_build that profileBody emailBody of
                              Inl e \<Rightarrow> Threw e w'
                            | Inr profile \<Rightarrow> done JNull profile w')
                     (\<lambda>e. done e JUndefined)))
       (setAccessTokenName ''oauth2_access_token'' w)"

section \<open>_loadUserProfile\<close>

text \<open>
  \<^verbatim>\<open>loadIt\<close> is \<^verbatim>\<open>self.userProfile(accessToken, done)\<close> and \<^verbatim>\<open>skipIt\<close> is
  \<^verbatim>\<open>done(null)\<close>, which leaves the profile \<^verbatim>\<open>undefined\<close>. A function of more than
  one parameter is called with the token and a callback; any other function is called
  with no argument.
\<close>

definition loadUserProfile ::
  "LinkedinTokenStrategy \<Rightarrow> jsval \<Rightarrow> (jsval \<Rightarrow> jsval \<Rightarrow> world \<Rightarrow> outcome) \<Rightarrow> world \<Rightarrow> outcome" where
  "loadUserProfile self accessToken done w =
     (case skipUserProfile self of
        SkipFunction n returns calls_back \<Rightarrow>
          if 1 < n then
            (case calls_back [accessToken] of
               (err, skip) \<Rightarrow>
                 if truthy err then done err JUndefined w
                 else if \<not> truthy skip then userProfile self accessToken done w
                 else done JNull JUndefined w)
          else
            if \<not> truthy (returns []) then userProfile self accessToken done w
            else done JNull JUndefined w
      | SkipValue skip \<Rightarrow>
          if \<not> truthy skip then userProfile self accessToken done w
          else done JNull JUndefined w)"

section \<open>authenticate\<close>

text \<open>
  \<^verbatim>\<open>a || b || c\<close>: \<open>b\<close> is evaluated only when \<open>a\<close> is falsy, and \<open>c\<close> only when
  \<open>b\<close> is falsy too.
\<close>

definition or3 :: "jsval \<Rightarrow> jsval thrown_or \<Rightarrow> jsval thrown_or \<Rightarrow> jsval thrown_or" where
  "or3 a b c =
     (if truthy a then Inr a
      else andThen b (\<lambda>bv. if truthy bv then Inr bv else c))"

text \<open>\<^verbatim>\<open>req.query.access_token\<close> and its like: two reads, each of which may throw.\<close>

definition member :: "jsval \<Rightarrow> string \<Rightarrow> string \<Rightarrow> jsval thrown_or" where
  "member req part k = andThen (js_get req part) (\<lambda>p. js_get p k)"

text \<open>
  Lines 78 to 85 of the source, the extraction of the two tokens:
  \<^verbatim>\<open>let accessToken, refreshToken;
  if (req.body) {
    accessToken = req.body.access_token;
    refreshToken = req.body.refresh_token;
  }
  accessToken = accessToken || req.query.access_token || req.headers.access_token;
  refreshToken = refreshToken || req.query.refresh_token || req.headers.refresh_token;\<close>
\<close>

definition extract_tokens :: "jsval \<Rightarrow> (jsval \<times> jsval) thrown_or" where
  "extract_tokens req =
     andThen (js_get req ''body'') (\<lambda>body.
     andThen (if truthy body then
                andThen (js_get body ''access_token'') (\<lambda>a.
                andThen (js_get body ''refresh_token'') (\<lambda>r. Inr (a, r)))
              else Inr (JUndefined, JUndefined)) (\<lambda>(a, r).
     andThen (or3 a (member req ''query'' ''access_token'')
                    (member req ''headers'' ''access_token'')) (\<lambda>accessToken.
     andThen (or3 r (member req ''query'' ''refresh_token'')
                    (member req ''headers'' ''refresh_token'')) (\<lambda>refreshToken.
       Inr (accessToken, refreshToken)))))"

definition verified :: "jsval \<Rightarrow> jsval \<Rightarrow> jsval \<Rightarrow> world \<Rightarrow> outcome" where
  "verified err user info w =
     (if truthy err then error err w
      else if \<not> truthy user then fail info w
      else success user info w)"

text \<open>
  The callback that \<^verbatim>\<open>authenticate\<close> passes to \<^verbatim>\<open>_loadUserProfile\<close> (lines 91 to 111).
\<close>

definition authenticate_loaded ::
  "LinkedinTokenStrategy \<Rightarrow> jsval \<Rightarrow> jsval \<Rightarrow> jsval \<Rightarrow> jsval \<Rightarrow> jsval \<Rightarrow> world \<Rightarrow> outcome" where
  "authenticate_loaded self req accessToken refreshToken err profile w =
     (if truthy err then fail err w
      else
        (case verify self
                (if truthy (passReqToCallback self)
                 then [req, accessToken, refreshToken, profile]
                 else [accessToken, refreshToken, profile]) of
           (err', user, info) \<Rightarrow> verified err' user info w))"

text \<open>
  \<^verbatim>\<open>authenticate(req, options)\<close>. The options are defaulted and not read again. The
  first test is \<^verbatim>\<open>req.query && req.query.error\<close>.
\<close>

definition authenticate :: "LinkedinTokenStrategy \<Rightarrow> jsval \<Rightarrow> jsval \<Rightarrow> world \<Rightarrow> outcome" where
  "authenticate self req options w =
     (case andThen (js_get req ''query'')
             (\<lambda>query. if truthy query then js_get query ''error'' else Inr query) of
        Inl e \<Rightarrow> Threw e w
      | Inr indicator \<Rightarrow>
          if truthy indicator then fail JUndefined w
          else
            (case extract_tokens req of
               Inl e \<Rightarrow> Threw e w
             | Inr (accessToken, refreshToken) \<Rightarrow>
                 if \<not> truthy accessToken then fail JUndefined w
                 else loadUserProfile self accessToken
                        (authenticate_loaded self req accessToken refreshToken) w))"

section \<open>Notions used in the statements\<close>

text \<open>
  \<open>peek v k\<close> is the value of the property \<open>k\<close> of \<open>v\<close>, and \<^verbatim>\<open>undefined\<close> where \<open>v\<close>
  has no properties to read. The three places a token is looked for are named after the
  request: the body counts only when \<^verbatim>\<open>req.body\<close> is truthy, as in the source.
\<close>

definition peek :: "jsval \<Rightarrow> string \<Rightarrow> jsval" where
  "peek v k = (case js_get v k of Inl e \<Rightarrow> JUndefined | Inr x \<Rightarrow> x)"

definition body_token :: "jsval \<Rightarrow> string \<Rightarrow> jsval" where
  "body_token req k =
     (if truthy (peek req ''body'') then peek (peek req ''body'') k else JUndefined)"

definition query_token :: "jsval \<Rightarrow> string \<Rightarrow> jsval" where
  "query_token req k = peek (peek req ''query'') k"

definition header_token :: "jsval \<Rightarrow> string \<Rightarrow> jsval" where
  "header_token req k = peek (peek req ''headers'') k"

text \<open>The specification's precedence: the first non-empty of body, query and header.\<close>

definition first_non_empty :: "jsval \<Rightarrow> jsval \<Rightarrow> jsval \<Rightarrow> jsval" where
  "first_non_empty b q h = (if truthy b then b else if truthy q then q else h)"

text \<open>
  The query object is consulted for a token when the body gives none, and the headers
  object when the query gives none either; consulting an object that the request does
  not have throws.
\<close>

definition needs_query :: "jsval \<Rightarrow> string \<Rightarrow> bool" where
  "needs_query req k = (\<not> truthy (body_token req k))"

definition needs_headers :: "jsval \<Rightarrow> string \<Rightarrow> bool" where
  "needs_headers req k = (\<not> truthy (body_token req k) \<and> \<not> truthy (query_token req k))"

definition token_of :: "jsval \<Rightarrow> string \<Rightarrow> jsval thrown_or" where
  "token_of req k =
     (if needs_query req k \<and> nullish (peek req ''query'') then Inl TypeError
      else if needs_headers req k \<and> nullish (peek req ''headers'') then Inl TypeError
      else Inr (first_non_empty (body_token req k) (query_token req k) (header_token req k)))"

text \<open>The provider's error indicator: a truthy \<^verbatim>\<open>req.query.error\<close>.\<close>

definition error_indicator :: "jsval \<Rightarrow> bool" where
  "error_indicator req =
     (truthy (peek req ''query'') \<and> truthy (peek (peek req ''query'') ''error''))"

text \<open>The extraction of the tokens completes and resolves no access token.\<close>

definition resolves_no_token :: "jsval \<Rightarrow> bool" where
  "resolves_no_token req =
     (case extract_tokens req of
        Inl e \<Rightarrow> False
      | Inr (accessToken, refreshToken) \<Rightarrow> \<not> truthy accessToken)"

section \<open>Sample requests and collaborators\<close>

text \<open>The world before a request: the OAuth2 client still presents the token under its
  default name, nothing was fetched and no sink was called.\<close>

definition w0 :: world where
  "w0 = \<lparr>accessTokenName = ''access_token'', gets = [], sinks = []\<rparr>"

definition three_tier_request :: jsval where
  "three_tier_request =
     JObj [(''body'', JObj [(''access_token'', JStr ''from-body'')]),
           (''query'', JObj [(''access_token'', JStr ''from-query''),
                             (''refresh_token'', JStr ''refresh-from-query'')]),
           (''headers'', JObj [(''access_token'', JStr ''from-header''),
                               (''refresh_token'', JStr ''refresh-from-header'')])]"

definition denied_request :: jsval where
  "denied_request =
     JObj [(''query'', JObj [(''error'', JStr ''access_denied''),
                             (''access_token'', JStr ''tok123'')]),
           (''headers'', JObj [])]"

definition tokenless_request :: jsval where
  "tokenless_request =
     JObj [(''body'', JObj [(''refresh_token'', JStr ''r1'')]),
           (''query'', JObj []),
           (''headers'', JObj [(''access_token'', JStr [])])]"

definition query_request :: jsval where
  "query_request =
     JObj [(''query'', JObj [(''access_token'', JStr ''tok123'')]), (''headers'', JObj [])]"

text \<open>
  Requests as Node hands them over when no middleware has parsed the query string: one
  with the token in a header, one with no token at all.
\<close>

definition header_only_request :: jsval where
  "header_only_request = JObj [(''headers'', JObj [(''access_token'', JStr ''tok123'')])]"

definition bare_request :: jsval where
  "bare_request = JObj [(''headers'', JObj [])]"

text \<open>The default URLs set by the constructor.\<close>

definition profile_url :: string where
  "profile_url = ''https://api.linkedin.com/v2/me?projection=(id,firstName,lastName,profilePicture(displayImage~:playableStreams))''"

definition email_url :: string where
  "email_url = ''https://api.linkedin.com/v2/emailAddress?q=members&projection=(elements*(handle~))''"

text \<open>The two documents of the specification's end-to-end scenario.\<close>

definition tina_profile :: jsval where
  "tina_profile =
     JObj [(''id'', JStr ''42''),
           (''firstName'',
              JObj [(''localized'', JObj [(''en_US'', JStr ''Tina'')]),
                    (''preferredLocale'',
                       JObj [(''language'', JStr ''en''), (''country'', JStr ''US'')])]),
           (''lastName'',
              JObj [(''localized'', JObj [(''en_US'', JStr ''Belcher'')]),
                    (''preferredLocale'',
                       JObj [(''language'', JStr ''en''), (''country'', JStr ''US'')])])]"

definition tina_email :: jsval where
  "tina_email =
     JObj [(''elements'',
              JArr [JObj [(''handle~'', JObj [(''emailAddress'', JStr ''tina@example.com'')])]])]"

definition SyntaxError :: jsval where
  "SyntaxError = JObj [(''name'', JStr ''SyntaxError'')]"

text \<open>
  A parser that knows the two bodies the sample provider sends and rejects every other
  text, and providers that answer both requests, none, or only the first.
\<close>

definition sample_parse :: "string \<Rightarrow> jsval thrown_or" where
  "sample_parse body =
     (if body = ''profile of Tina'' then Inr tina_profile
      else if body = ''email of Tina'' then Inr tina_email
      else Inl SyntaxError)"

definition unauthorized :: jsval where
  "unauthorized = JObj [(''statusCode'', JNum Positive ''401'')]"

definition provider_up :: "world \<Rightarrow> string \<Rightarrow> jsval \<Rightarrow> jsval \<times> string" where
  "provider_up w url token =
     (if url = profile_url then (JNull, ''profile of Tina'') else (JNull, ''email of Tina''))"

definition provider_down :: "world \<Rightarrow> string \<Rightarrow> jsval \<Rightarrow> jsval \<times> string" where
  "provider_down w url token = (unauthorized, [])"

definition email_down :: "world \<Rightarrow> string \<Rightarrow> jsval \<Rightarrow> jsval \<times> string" where
  "email_down w url token =
     (if url = profile_url then (JNull, ''profile of Tina'') else (unauthorized, []))"

text \<open>
  A reading of strings as numbers that knows the plain numerals, strings of decimal
  digits, and takes every other string for no positive number. No sample consults it.
\<close>

definition plain_numeral_positive :: "string \<Rightarrow> bool" where
  "plain_numeral_positive s = (case digits_value 0 s of None \<Rightarrow> False | Some n \<Rightarrow> 0 < n)"

text \<open>An application that accepts every credential and takes its arguments as the user.\<close>

definition accept_arguments :: "jsval list \<Rightarrow> jsval \<times> jsval \<times> jsval" where
  "accept_arguments args = (JNull, JArr args, JUndefined)"

definition app :: LinkedinTokenStrategy where
  "app = \<lparr>passReqToCallback = JUndefined, profileUrl = profile_url, emailUrl = email_url,
           skipUserProfile = SkipValue (JBool False), verify = accept_arguments,
           oauth2_reply = provider_up, JSON_parse = sample_parse,
           Number_positive = plain_numeral_positive\<rparr>"

definition app_provider_down :: LinkedinTokenStrategy where
  "app_provider_down = app\<lparr>oauth2_reply := provider_down\<rparr>"

definition app_email_down :: LinkedinTokenStrategy where
  "app_email_down = app\<lparr>oauth2_reply := email_down\<rparr>"

subsection \<open>Notions and samples for the normalizer\<close>

text \<open>
  An element of the email document carries a resolved handle with a non-empty address;
  the entry appended for it.
\<close>

definition has_address :: "jsval \<Rightarrow> bool" where
  "has_address el =
     (truthy (peek el ''handle~'') \<and> truthy (peek (peek el ''handle~'') ''emailAddress''))"

definition address_entry :: "jsval \<Rightarrow> jsval" where
  "address_entry el = JObj [(''value'', peek (peek el ''handle~'') ''emailAddress'')]"

definition four_handles :: jsval where
  "four_handles =
     JObj [(''elements'',
        JArr [JObj [(''handle~'', JObj [(''emailAddress'', JStr ''tina@example.com'')])],
              JObj [(''handle'', JStr ''urn:li:emailAddress:3775708763'')],
              JObj [(''handle~'', JObj [(''emailAddress'', JStr [])])],
              JObj [(''handle~'', JObj [(''emailAddress'', JStr ''tb@example.org'')])]])]"

text \<open>
  The element list of the nested picture structure; an image element has identifiers
  when it is truthy and its \<^verbatim>\<open>identifiers\<close> is a non-empty list; the entry appended
  for it holds the first of them. The identifiers of an element are readable when they
  are absent, or a list that is empty or starts with a value other than \<^verbatim>\<open>null\<close>.
\<close>

definition picture_elements :: "jsval \<Rightarrow> jsval" where
  "picture_elements profileJson =
     peek (peek (peek profileJson ''profilePicture'') ''displayImage~'') ''elements''"

definition has_identifiers :: "jsval \<Rightarrow> bool" where
  "has_identifiers el =
     (truthy el \<and> (case peek el ''identifiers'' of JArr (i # ids) \<Rightarrow> True | _ \<Rightarrow> False))"

definition identifiers_readable :: "jsval \<Rightarrow> bool" where
  "identifiers_readable el =
     (case peek el ''identifiers'' of
        JArr ids \<Rightarrow> (case ids of [] \<Rightarrow> True | i # rest \<Rightarrow> \<not> nullish i)
      | v \<Rightarrow> \<not> truthy el \<or> \<not> truthy v)"

definition first_identifier :: "jsval \<Rightarrow> jsval" where
  "first_identifier el =
     JObj [(''value'', peek (peek (peek el ''identifiers'') ''0'') ''identifier'')]"

text \<open>
  The specification's reading of \<^verbatim>\<open>photos\<close>: one entry for each identifier of the
  first image element.
\<close>

definition photos_of_first_element :: "jsval \<Rightarrow> jsval list" where
  "photos_of_first_element profileJson =
     (case picture_elements profileJson of
        JArr (el # els) \<Rightarrow>
          (case peek el ''identifiers'' of
             JArr ids \<Rightarrow> map (\<lambda>i. JObj [(''value'', peek i ''identifier'')]) ids
           | _ \<Rightarrow> [])
      | _ \<Rightarrow> [])"

definition two_images :: jsval where
  "two_images =
     JObj [(''id'', JStr ''42''),
       (''profilePicture'',
          JObj [(''displayImage~'',
             JObj [(''elements'',
                JArr [JObj [(''identifiers'',
                              JArr [JObj [(''identifier'', JStr ''small-1'')],
                                    JObj [(''identifier'', JStr ''small-2'')]])],
                      JObj [(''identifiers'', JArr [])],
                      JObj [(''identifiers'',
                              JArr [JObj [(''identifier'', JStr ''large-1'')]])]])])])]"



definition null_element_document :: jsval where
  "null_element_document = JObj [(''elements'', JArr [JNull])]"

subsection \<open>Samples for the profile-load gate\<close>

text \<open>
  A synchronous predicate of one parameter,
  \<^verbatim>\<open>function (accessToken) { return !!accessToken; }\<close>, with the strategies that carry
  it and the plain value \<^verbatim>\<open>true\<close>.
\<close>

definition skip_if_token :: "jsval list \<Rightarrow> jsval" where
  "skip_if_token args = (case args of [] \<Rightarrow> JBool False | token # rest \<Rightarrow> JBool (truthy token))"

definition never_calls_back :: "jsval list \<Rightarrow> jsval \<times> jsval" where
  "never_calls_back args = (JUndefined, JUndefined)"

definition app_skip_true :: LinkedinTokenStrategy where
  "app_skip_true = app\<lparr>skipUserProfile := SkipValue (JBool True)\<rparr>"

definition app_skip_if_token :: LinkedinTokenStrategy where
  "app_skip_if_token = app\<lparr>skipUserProfile := SkipFunction 1 skip_if_token never_calls_back\<rparr>"

text \<open>Requests without a query object and without headers that carry tokens in the body.\<close>

definition both_in_body_request :: jsval where
  "both_in_body_request =
     JObj [(''body'', JObj [(''access_token'', JStr ''tok123''),
                            (''refresh_token'', JStr ''ref456'')])]"

definition access_in_body_request :: jsval where
  "access_in_body_request = JObj [(''body'', JObj [(''access_token'', JStr ''tok123'')])]"

text \<open>The normalized profile of the end-to-end scenario.\<close>

definition tina_normalized :: jsval where
  "tina_normalized =
     JObj [(''provider'', JStr ''linkedin''),
           (''id'', JStr ''42''),
           (''name'', JObj [(''familyName'', JStr ''Belcher''), (''givenName'', JStr ''Tina'')]),
           (''displayName'', JStr ''Tina Belcher''),
           (''emails'', JArr [JObj [(''value'', JStr ''tina@example.com'')]]),
           (''_raw'', JStr ''profile of Tina''),
           (''_json'', tina_profile)]"

subsection \<open>Notions and samples for the profile-load step\<close>

text \<open>
  The request passes the two local checks of \<^verbatim>\<open>authenticate\<close> with the given tokens,
  and the gate decides to load the profile.
\<close>

definition proceeds_with :: "jsval \<Rightarrow> jsval \<Rightarrow> jsval \<Rightarrow> bool" where
  "proceeds_with req accessToken refreshToken =
     (\<not> error_indicator req \<and> extract_tokens req = Inr (accessToken, refreshToken)
      \<and> truthy accessToken)"

definition loads_profile :: "LinkedinTokenStrategy \<Rightarrow> jsval \<Rightarrow> bool" where
  "loads_profile self accessToken =
     (case skipUserProfile self of
        SkipFunction n returns calls_back \<Rightarrow>
          if 1 < n then
            (case calls_back [accessToken] of (err, skip) \<Rightarrow> \<not> truthy err \<and> \<not> truthy skip)
          else \<not> truthy (returns [])
      | SkipValue skip \<Rightarrow> \<not> truthy skip)"

text \<open>
  An asynchronous skip predicate that reports an error, and a provider that answers the
  profile request with a page that is not a JSON document.
\<close>

definition gate_failure :: jsval where
  "gate_failure = JObj [(''message'', JStr ''no skip decision'')]"

definition failing_predicate :: "jsval list \<Rightarrow> jsval \<times> jsval" where
  "failing_predicate args = (gate_failure, JUndefined)"

definition app_gate_error :: LinkedinTokenStrategy where
  "app_gate_error = app\<lparr>skipUserProfile := SkipFunction 2 skip_if_token failing_predicate\<rparr>"

definition provider_garbled :: "world \<Rightarrow> string \<Rightarrow> jsval \<Rightarrow> jsval \<times> string" where
  "provider_garbled w url token =
     (if url = profile_url then (JNull, ''<html>Bad Gateway</html>'')
      else (JNull, ''email of Tina''))"

definition app_provider_garbled :: LinkedinTokenStrategy where
  "app_provider_garbled = app\<lparr>oauth2_reply := provider_garbled\<rparr>"

text \<open>
  The callback of \<^verbatim>\<open>authenticate\<close> (lines 91 to 111) for an application whose verify
  callback calls \<^verbatim>\<open>verified(null, user)\<close> and then throws.
\<close>

definition application_error :: jsval where
  "application_error = JObj [(''message'', JStr ''thrown after verified'')]"

definition accepting_then_throwing :: "jsval \<Rightarrow> jsval \<Rightarrow> world \<Rightarrow> outcome" where
  "accepting_then_throwing err profile w =
     (if truthy err then fail err w
      else
        (case success (JObj [(''id'', JStr ''42'')]) JUndefined w of
           Returned w' \<Rightarrow> Threw application_error w'
         | Threw e w' \<Rightarrow> Threw e w'))"

section \<open>Properties\<close>

subsection \<open>Reading properties\<close>

lemma inherited_plain [simp]:
  assumes "k \<noteq> []" and "hd k \<noteq> CHR ''_''"
  shows "inherited v k = JUndefined"
  using assms by (cases k) (auto simp add: inherited_def legacy_accessors_def)

lemma js_get_present: "\<not> nullish v \<Longrightarrow> js_get v k = Inr (peek v k)"
  by (cases v) (simp_all add: peek_def)

lemma js_get_nullish: "nullish v \<Longrightarrow> js_get v k = Inl TypeError"
  by (cases v) simp_all

lemma truthy_present: "truthy v \<Longrightarrow> \<not> nullish v"
  by (cases v) simp_all

lemma peek_nullish: "nullish v \<Longrightarrow> peek v k = JUndefined"
  by (cases v) (simp_all add: peek_def)

lemma peek_present: "\<not> nullish (peek v k) \<Longrightarrow> \<not> nullish v"
  using peek_nullish [of v k] by auto

lemma peek_object:
  "peek (JObj kvs) k = (case map_of kvs k of Some v \<Rightarrow> v | None \<Rightarrow> inherited (JObj kvs) k)"
  by (simp add: peek_def)

lemma peek_falsy:
  assumes "\<not> truthy v" and "k \<noteq> ''length''" and "k \<noteq> []" and "hd k \<noteq> CHR ''_''"
  shows "peek v k = JUndefined"
  using assms by (cases v) (simp_all add: peek_def split: option.splits)

lemma array_index_0 [simp]: "array_index ''0'' = Some 0"
  by (simp add: array_index_def digit_value_def)

lemma count_positive [simp]: "js_gt0 positive (count n) = Inr (0 < n)"
  by (simp add: count_def)



subsection \<open>Token extraction\<close>

lemma or3_eq:
  assumes "\<not> nullish req"
  shows "or3 (body_token req k) (member req ''query'' k) (member req ''headers'' k) = token_of req k"
  using assms
  by (auto simp: or3_def member_def andThen_def token_of_def needs_query_def needs_headers_def
       first_non_empty_def query_token_def header_token_def js_get_present js_get_nullish
       peek_nullish)

lemma extract_tokens_eq:
  assumes "\<not> nullish req"
  shows "extract_tokens req =
           andThen (token_of req ''access_token'') (\<lambda>a.
           andThen (token_of req ''refresh_token'') (\<lambda>r. Inr (a, r)))"
proof (cases "truthy (peek req ''body'')")
  case True
  then have "\<not> nullish (peek req ''body'')"
    by (rule truthy_present)
  with True show ?thesis
    using or3_eq [OF assms, of "''access_token''"] or3_eq [OF assms, of "''refresh_token''"]
    by (simp add: extract_tokens_def andThen_def js_get_present [OF assms] js_get_present
          body_token_def split: sum.splits)
next
  case False
  then show ?thesis
    using or3_eq [OF assms, of "''access_token''"] or3_eq [OF assms, of "''refresh_token''"]
    by (simp add: extract_tokens_def andThen_def js_get_present [OF assms] body_token_def
          split: sum.splits)
qed

lemma extract_tokens_nullish: "nullish req \<Longrightarrow> extract_tokens req = Inl TypeError"
  by (simp add: extract_tokens_def andThen_def js_get_nullish)

lemma token_of_present:
  assumes "\<not> nullish (peek req ''query'')" and "\<not> nullish (peek req ''headers'')"
  shows "token_of req k =
           Inr (first_non_empty (body_token req k) (query_token req k) (header_token req k))"
  using assms by (simp add: token_of_def)

text \<open>
  What the extraction of lines 78 to 85 does for every request: each of the two tokens
  is taken from the body when the body holds a non-empty value; otherwise the query
  object is read, and the headers object when the query gives no value either
  (\<open>token_of\<close>). For a request that has a query object and a headers object this is
  the precedence of body over query over header, for each token on its own.
\<close>

lemma extract_tokens_precedence:
  assumes "\<not> nullish req"
  shows "extract_tokens req =
           andThen (token_of req ''access_token'') (\<lambda>a.
           andThen (token_of req ''refresh_token'') (\<lambda>r. Inr (a, r)))
       \<and> (\<not> nullish (peek req ''query'') \<and> \<not> nullish (peek req ''headers'') \<longrightarrow>
            extract_tokens req =
              Inr (first_non_empty (body_token req ''access_token'')
                     (query_token req ''access_token'') (header_token req ''access_token''),
                   first_non_empty (body_token req ''refresh_token'')
                     (query_token req ''refresh_token'') (header_token req ''refresh_token'')))"
  by (simp add: extract_tokens_eq [OF assms] token_of_present andThen_def)

lemma extract_tokens_three_tiers:
  "extract_tokens three_tier_request = Inr (JStr ''from-body'', JStr ''refresh-from-query'')"
  using extract_tokens_precedence [of three_tier_request]
  by (simp add: three_tier_request_def peek_object first_non_empty_def body_token_def
        query_token_def header_token_def token_of_def needs_query_def needs_headers_def
        andThen_def)

text \<open>
  C3. The precedence of body over query over header does not hold for every request.
  The sample request has no body and no query object and carries the access token in a
  header: no body value, no query value, so the claim selects the header value. Line 84
  reads \<^verbatim>\<open>req.query.access_token\<close> without the test that line 73 makes, the read
  throws, and no token is selected.
\<close>

theorem header_token_not_selected:
  "body_token header_only_request ''access_token'' = JUndefined
   \<and> query_token header_only_request ''access_token'' = JUndefined
   \<and> header_token header_only_request ''access_token'' = JStr ''tok123''
   \<and> extract_tokens header_only_request = Inl TypeError"
  by (simp add: header_only_request_def body_token_def query_token_def header_token_def
        peek_def extract_tokens_def andThen_def or3_def member_def)

subsection \<open>The authentication driver\<close>

lemma InternalOAuthError_truthy [simp]: "truthy (InternalOAuthError message err)"
  by (simp add: InternalOAuthError_def)

lemma authenticate_eq:
  assumes "\<not> nullish req"
  shows "authenticate self req options w =
           (if error_indicator req then fail JUndefined w
            else case extract_tokens req of
                   Inl e \<Rightarrow> Threw e w
                 | Inr (accessToken, refreshToken) \<Rightarrow>
                     if \<not> truthy accessToken then fail JUndefined w
                     else loadUserProfile self accessToken
                            (authenticate_loaded self req accessToken refreshToken) w)"
  using assms
  by (simp add: authenticate_def andThen_def js_get_present truthy_present error_indicator_def)

text \<open>
  A request that exposes the provider's error indicator in its query string, or for
  which the extraction of lines 78 to 85 completes and resolves no access token, ends in
  one call of \<^verbatim>\<open>fail\<close> with no argument: no call of \<^verbatim>\<open>error\<close> or \<^verbatim>\<open>success\<close> is
  made, and the list of GET requests is the one before the request, so the HTTP
  capability is not called. The indicator wins over any token the request carries.
\<close>

lemma local_rejection:
  assumes "error_indicator req \<or> resolves_no_token req"
  shows "authenticate self req options w = Returned (w\<lparr>sinks := sinks w @ [Fail JUndefined]\<rparr>)"
proof -
  have present: "\<not> nullish req"
  proof
    assume n: "nullish req"
    then have "\<not> error_indicator req"
      by (simp add: error_indicator_def peek_nullish)
    moreover from n have "\<not> resolves_no_token req"
      by (simp add: resolves_no_token_def extract_tokens_nullish)
    ultimately show False using assms by simp
  qed
  show ?thesis
    using assms
    by (auto simp: authenticate_eq [OF present] fail_def resolves_no_token_def
          split: sum.splits prod.splits)
qed

lemma local_rejection_samples:
  "authenticate app denied_request JUndefined w0 =
     Returned \<lparr>accessTokenName = ''access_token'', gets = [], sinks = [Fail JUndefined]\<rparr>
   \<and> authenticate app tokenless_request JUndefined w0 =
     Returned \<lparr>accessTokenName = ''access_token'', gets = [], sinks = [Fail JUndefined]\<rparr>"
proof -
  have denied: "error_indicator denied_request"
    by (simp add: error_indicator_def denied_request_def peek_object)
  have tokenless: "resolves_no_token tokenless_request"
    by (simp add: resolves_no_token_def tokenless_request_def extract_tokens_def andThen_def
          or3_def member_def)
  show ?thesis
    using local_rejection [OF disjI1 [OF denied], of app JUndefined w0]
      local_rejection [OF disjI2 [OF tokenless], of app JUndefined w0]
    by (simp add: w0_def)
qed

text \<open>
  C4. Not every request without an access token ends in \<^verbatim>\<open>fail\<close>. The sample request
  has headers and nothing else: no body, no query object, no token in any of the three
  places. Line 84 reads \<^verbatim>\<open>req.query.access_token\<close> without the test that line 73
  makes; the read throws, the exception leaves \<^verbatim>\<open>authenticate\<close> before line 87 is
  reached, and no sink is called. The HTTP capability is not called either.
\<close>

theorem tokenless_request_throws:
  "body_token bare_request ''access_token'' = JUndefined
   \<and> query_token bare_request ''access_token'' = JUndefined
   \<and> header_token bare_request ''access_token'' = JUndefined
   \<and> \<not> error_indicator bare_request
   \<and> authenticate app bare_request JUndefined w0 = Threw TypeError w0
   \<and> sinks w0 = [] \<and> gets w0 = []"
  by (simp add: bare_request_def body_token_def query_token_def header_token_def peek_def
        error_indicator_def authenticate_def extract_tokens_def andThen_def or3_def member_def
        w0_def)

lemma verified_one_sink:
  "\<exists>s. verified err user info w = Returned (w\<lparr>sinks := sinks w @ [s]\<rparr>)"
  by (cases "truthy err"; cases "truthy user")
     (auto simp add: verified_def fail_def error_def success_def)

lemma authenticate_loaded_one_sink:
  "\<exists>s. authenticate_loaded self req accessToken refreshToken err profile w =
          Returned (w\<lparr>sinks := sinks w @ [s]\<rparr>)"
proof (cases "truthy err")
  case True
  then show ?thesis
    by (auto simp add: authenticate_loaded_def fail_def)
next
  case False
  then show ?thesis
    using verified_one_sink
    by (simp add: authenticate_loaded_def split: prod.splits)
qed

subsection \<open>Every callback is called once\<close>

lemma userProfile_calls_done:
  assumes "\<And>err profile w. \<exists>w'. done err profile w = Returned w'"
  shows "\<exists>err profile w1. userProfile that accessToken done w = done err profile w1
           \<and> sinks w1 = sinks w"
proof -
  let ?w1 = "setAccessTokenName ''oauth2_access_token'' w"
  obtain profileErr profileBody where
    p: "oauth2_reply that ?w1 (profileUrl that) accessToken = (profileErr, profileBody)"
    by (cases "oauth2_reply that ?w1 (profileUrl that) accessToken")
  let ?w2 = "?w1\<lparr>gets := gets ?w1 @ [(profileUrl that, accessToken)]\<rparr>"
  obtain emailErr emailBody where
    e: "oauth2_reply that ?w2 (emailUrl that) accessToken = (emailErr, emailBody)"
    by (cases "oauth2_reply that ?w2 (emailUrl that) accessToken")
  let ?w3 = "?w2\<lparr>gets := gets ?w2 @ [(emailUrl that, accessToken)]\<rparr>"
  have s2: "sinks ?w2 = sinks w" and s3: "sinks ?w3 = sinks w"
    by (simp_all add: setAccessTokenName_def)
  show ?thesis
  proof (cases "truthy profileErr")
    case True
    then have "userProfile that accessToken done w =
        done (InternalOAuthError ''failed to fetch user profile'' profileErr) JUndefined ?w2"
      by (simp add: userProfile_def oauth2_get_def p)
    with s2 show ?thesis by blast
  next
    case False
    show ?thesis
    proof (cases "truthy emailErr")
      case True
      with False have "userProfile that accessToken done w =
          done (InternalOAuthError ''failed to fetch user email'' emailErr) JUndefined ?w3"
        by (simp add: userProfile_def oauth2_get_def p e)
      with s3 show ?thesis by blast
    next
      case fetched: False
      show ?thesis
      proof (cases "userProfile_build that profileBody emailBody")
        case (Inl thrown)
        with False fetched have
          "userProfile that accessToken done w = done thrown JUndefined ?w3"
          by (simp add: userProfile_def oauth2_get_def p e try_catch_def)
        with s3 show ?thesis by blast
      next
        case (Inr profile)
        obtain w' where "done JNull profile ?w3 = Returned w'"
          using assms by blast
        with Inr False fetched have
          "userProfile that accessToken done w = done JNull profile ?w3"
          by (simp add: userProfile_def oauth2_get_def p e try_catch_def)
        with s3 show ?thesis by blast
      qed
    qed
  qed
qed

lemma loadUserProfile_calls_done:
  assumes "\<And>err profile w. \<exists>w'. done err profile w = Returned w'"
  shows "\<exists>err profile w1. loadUserProfile self accessToken done w = done err profile w1
           \<and> sinks w1 = sinks w"
proof -
  have skip: "\<exists>err profile w1. done JNull JUndefined w = done err profile w1 \<and> sinks w1 = sinks w"
    by blast
  have gate: "\<exists>err profile w1. done e JUndefined w = done err profile w1 \<and> sinks w1 = sinks w"
    for e
    by blast
  note load = userProfile_calls_done [of "done" self accessToken w, OF assms]
  show ?thesis
    using skip gate load
    by (simp add: loadUserProfile_def split: skip_setting.splits prod.splits)
qed

text \<open>
  For a request that has a query object and a headers object, \<^verbatim>\<open>authenticate\<close>
  returns after exactly one call of one of the sinks \<^verbatim>\<open>fail\<close>, \<^verbatim>\<open>error\<close> and
  \<^verbatim>\<open>success\<close>: the calls recorded afterwards are those recorded before and one more.
  The skip predicate, the HTTP capability and the verify callback are taken to call
  their callbacks once and not to throw, as the model of the collaborators says.
\<close>

lemma authenticate_one_sink:
  assumes "\<not> nullish (peek req ''query'')" and "\<not> nullish (peek req ''headers'')"
  shows "\<exists>w' s. authenticate self req options w = Returned w' \<and> sinks w' = sinks w @ [s]"
proof -
  have present: "\<not> nullish req"
    using assms(1) by (rule peek_present)
  obtain a r where tokens: "extract_tokens req = Inr (a, r)"
    by (simp add: extract_tokens_eq [OF present] token_of_present [OF assms] andThen_def)
  have local: "\<exists>w' s. fail JUndefined w = Returned w' \<and> sinks w' = sinks w @ [s]"
    by (simp add: fail_def)
  have never_throws: "\<exists>w'. authenticate_loaded self req a r err profile w1 = Returned w'"
    for err profile w1
    using authenticate_loaded_one_sink [of self req a r err profile w1] by blast
  obtain err profile w1 where
    load: "loadUserProfile self a (authenticate_loaded self req a r) w =
             authenticate_loaded self req a r err profile w1"
    and same: "sinks w1 = sinks w"
    using loadUserProfile_calls_done [of "authenticate_loaded self req a r" self a w,
            OF never_throws]
    by blast
  obtain s where "authenticate_loaded self req a r err profile w1 =
                    Returned (w1\<lparr>sinks := sinks w1 @ [s]\<rparr>)"
    using authenticate_loaded_one_sink by blast
  with load same have
    "\<exists>w' s. loadUserProfile self a (authenticate_loaded self req a r) w = Returned w'
        \<and> sinks w' = sinks w @ [s]"
    by simp
  with local show ?thesis
    by (simp add: authenticate_eq [OF present] tokens)
qed

lemma authenticate_one_sink_sample:
  "\<exists>w' s. authenticate app three_tier_request JUndefined w0 = Returned w'
            \<and> sinks w' = sinks w0 @ [s]"
  using authenticate_one_sink [of three_tier_request app JUndefined w0]
  by (simp add: three_tier_request_def peek_object)

text \<open>
  C2. Not every request ends in exactly one sink call. The sample request carries the
  token in a header and has no query object. Line 73 tests \<^verbatim>\<open>req.query\<close> before it
  reads from it and line 79 tests \<^verbatim>\<open>req.body\<close>; line 84 reads
  \<^verbatim>\<open>req.query.access_token\<close> without such a test. The read throws, the exception
  leaves \<^verbatim>\<open>authenticate\<close>, and no sink has been called.
\<close>

theorem authenticate_without_sink:
  "authenticate app header_only_request JUndefined w0 = Threw TypeError w0 \<and> sinks w0 = []"
  by (simp add: authenticate_def andThen_def header_only_request_def extract_tokens_def
        or3_def member_def w0_def)

subsection \<open>The upstream fetch orchestrator\<close>

text \<open>
  C5. \<^verbatim>\<open>userProfile\<close> sets the token's parameter name and requests the profile. When
  that request fails with \<open>profileErr\<close>, the result of \<^verbatim>\<open>userProfile\<close> is the one call
  of \<^verbatim>\<open>done\<close> with the error that wraps \<^verbatim>\<open>failed to fetch user profile\<close> and
  \<open>profileErr\<close>, made in a world where the profile URL is the only request issued: the
  email URL is never requested. When the profile request succeeds and the email request,
  issued after it, fails with \<open>emailErr\<close>, the result is the one call of \<^verbatim>\<open>done\<close> with
  the error that wraps \<^verbatim>\<open>failed to fetch user email\<close> and \<open>emailErr\<close>. Both equations
  hold for every continuation \<open>done\<close>.
\<close>

theorem userProfile_fetch_order:
  "(oauth2_reply that (setAccessTokenName ''oauth2_access_token'' w) (profileUrl that)
        accessToken = (profileErr, profileBody)
      \<and> truthy profileErr \<longrightarrow>
    userProfile that accessToken done w =
      done (InternalOAuthError ''failed to fetch user profile'' profileErr) JUndefined
        (w\<lparr>accessTokenName := ''oauth2_access_token'',
            gets := gets w @ [(profileUrl that, accessToken)]\<rparr>))
   \<and> (oauth2_reply that (setAccessTokenName ''oauth2_access_token'' w) (profileUrl that)
        accessToken = (profileErr, profileBody)
      \<and> \<not> truthy profileErr
      \<and> oauth2_reply that
            (w\<lparr>accessTokenName := ''oauth2_access_token'',
                gets := gets w @ [(profileUrl that, accessToken)]\<rparr>)
            (emailUrl that) accessToken = (emailErr, emailBody)
      \<and> truthy emailErr \<longrightarrow>
    userProfile that accessToken done w =
      done (InternalOAuthError ''failed to fetch user email'' emailErr) JUndefined
        (w\<lparr>accessTokenName := ''oauth2_access_token'',
            gets := gets w @ [(profileUrl that, accessToken), (emailUrl that, accessToken)]\<rparr>))"
  by (simp add: userProfile_def oauth2_get_def setAccessTokenName_def)

theorem userProfile_fetch_order_witness:
  "userProfile app_provider_down (JStr ''tok123'') (\<lambda>err profile. error err) w0 =
     Returned \<lparr>accessTokenName = ''oauth2_access_token'',
                gets = [(profile_url, JStr ''tok123'')],
                sinks = [Error (InternalOAuthError ''failed to fetch user profile'' unauthorized)]\<rparr>
   \<and> userProfile app_email_down (JStr ''tok123'') (\<lambda>err profile. error err) w0 =
     Returned \<lparr>accessTokenName = ''oauth2_access_token'',
                gets = [(profile_url, JStr ''tok123''), (email_url, JStr ''tok123'')],
                sinks = [Error (InternalOAuthError ''failed to fetch user email'' unauthorized)]\<rparr>"
  using
    userProfile_fetch_order [of app_provider_down w0 "JStr ''tok123''" unauthorized "[]"
      "\<lambda>err profile. error err" unauthorized "[]"]
    userProfile_fetch_order [of app_email_down w0 "JStr ''tok123''" JNull "''profile of Tina''"
      "\<lambda>err profile. error err" unauthorized "[]"]
  by (simp add: app_provider_down_def app_email_down_def app_def provider_down_def
        email_down_def setAccessTokenName_def w0_def unauthorized_def error_def
        profile_url_def email_url_def)

subsection \<open>The profile normalizer\<close>

lemma addEmails_step_eq:
  assumes "\<not> nullish el"
  shows "addEmails_step memo el =
           Inr (if has_address el then memo @ [address_entry el] else memo)"
  using assms
  by (simp add: addEmails_step_def andThen_def js_get_present truthy_present has_address_def
        address_entry_def)

lemma js_reduce_addEmails:
  assumes "\<forall>el\<in>set els. \<not> nullish el"
  shows "js_reduce addEmails_step memo els =
           Inr (memo @ map address_entry (filter has_address els))"
  using assms
  by (induction els arbitrary: memo) (simp_all add: addEmails_step_eq)

text \<open>
  What \<^verbatim>\<open>addEmails\<close> does for an element list without \<^verbatim>\<open>null\<close>: when the email
  document has no \<^verbatim>\<open>elements\<close> key the profile is left as it is, so no \<^verbatim>\<open>emails\<close>
  field is added; when \<^verbatim>\<open>elements\<close> is a list, \<^verbatim>\<open>emails\<close> is set to the entries
  \<^verbatim>\<open>{value: address}\<close> of the elements that carry a resolved handle with a non-empty
  address, in the order of the list, and is present and empty when no element does.
\<close>

lemma addEmails_emails:
  "(emailJson = JObj kvs \<and> map_of kvs ''elements'' = None \<longrightarrow>
      addEmails profile emailJson = Inr profile)
   \<and> (js_get emailJson ''elements'' = Inr (JArr els) \<and> (\<forall>el\<in>set els. \<not> nullish el) \<longrightarrow>
      addEmails profile emailJson =
        Inr (js_set profile ''emails'' (JArr (map address_entry (filter has_address els))))
      \<and> map_of (js_set profile ''emails'' (JArr (map address_entry (filter has_address els))))
           ''emails'' = Some (JArr (map address_entry (filter has_address els))))
   \<and> (js_get emailJson ''elements'' = Inr (JArr els) \<and> (\<forall>el\<in>set els. \<not> nullish el)
        \<and> (\<forall>el\<in>set els. \<not> has_address el) \<longrightarrow>
      addEmails profile emailJson = Inr (js_set profile ''emails'' (JArr [])))"
proof -
  have absent: "addEmails profile emailJson = Inr profile"
    if "emailJson = JObj kvs" and "map_of kvs ''elements'' = None"
    using that by (simp add: addEmails_def andThen_def)
  have listed: "addEmails profile emailJson =
      Inr (js_set profile ''emails'' (JArr (map address_entry (filter has_address els))))"
    if "js_get emailJson ''elements'' = Inr (JArr els)" and "\<forall>el\<in>set els. \<not> nullish el"
    using that by (simp add: addEmails_def andThen_def reduce_def js_reduce_addEmails)
  have present: "map_of (js_set profile ''emails'' v) ''emails'' = Some v" for v
    by (simp add: js_set_def update_conv')
  have none: "filter has_address els = []" if "\<forall>el\<in>set els. \<not> has_address el"
    using that by (simp add: filter_empty_conv)
  show ?thesis
    using absent listed present none by simp
qed

lemma addEmails_samples:
  "addEmails [(''provider'', JStr ''linkedin'')] four_handles =
     Inr [(''provider'', JStr ''linkedin''),
          (''emails'', JArr [JObj [(''value'', JStr ''tina@example.com'')],
                             JObj [(''value'', JStr ''tb@example.org'')]])]
   \<and> addEmails [(''provider'', JStr ''linkedin'')] (JObj [(''elements'', JArr [])]) =
     Inr [(''provider'', JStr ''linkedin''), (''emails'', JArr [])]
   \<and> addEmails [(''provider'', JStr ''linkedin'')] (JObj []) =
     Inr [(''provider'', JStr ''linkedin'')]"
  by (simp add: addEmails_def addEmails_step_def andThen_def reduce_def four_handles_def
        js_set_def)

text \<open>
  C6. The asymmetry does not hold for every email document. In the sample document the
  element list exists and holds \<^verbatim>\<open>null\<close>, an element without a usable address, so the
  claim has \<^verbatim>\<open>emails\<close> present and empty. The callback of \<^verbatim>\<open>addEmails\<close> reads
  \<^verbatim>\<open>el['handle~']\<close> (line 262) without the test \<^verbatim>\<open>el &&\<close> that the callback of
  \<^verbatim>\<open>addPhotos\<close> makes (line 279): the read throws and no profile is returned, where
  \<^verbatim>\<open>addPhotos\<close> skips such an element.
\<close>

theorem addEmails_null_element:
  "peek null_element_document ''elements'' = JArr [JNull]
   \<and> \<not> has_address JNull
   \<and> addEmails [(''provider'', JStr ''linkedin'')] null_element_document = Inl TypeError
   \<and> addPhotos_step positive [] JNull = Inr []"
  by (simp add: null_element_document_def peek_def has_address_def addEmails_def
        addEmails_step_def addPhotos_step_def andThen_def reduce_def)

lemma picture_elements_truthy:
  assumes "truthy (picture_elements profileJson)"
  shows "truthy (peek profileJson ''profilePicture'')"
    and "truthy (peek (peek profileJson ''profilePicture'') ''displayImage~'')"
proof -
  show "truthy (peek profileJson ''profilePicture'')"
  proof (rule ccontr)
    assume "\<not> truthy (peek profileJson ''profilePicture'')"
    then have "picture_elements profileJson = JUndefined"
      by (simp add: picture_elements_def peek_falsy)
    with assms show False by simp
  qed
  show "truthy (peek (peek profileJson ''profilePicture'') ''displayImage~'')"
  proof (rule ccontr)
    assume "\<not> truthy (peek (peek profileJson ''profilePicture'') ''displayImage~'')"
    then have "picture_elements profileJson = JUndefined"
      by (simp add: picture_elements_def peek_falsy)
    with assms show False by simp
  qed
qed

lemma addPhotos_eq:
  assumes "\<not> nullish profileJson"
  shows "addPhotos positive profile profileJson =
           (if \<not> truthy (peek profileJson ''profilePicture'') then Inr profile
            else if \<not> truthy (peek (peek profileJson ''profilePicture'') ''displayImage~'')
              then Inr profile
            else if \<not> truthy (picture_elements profileJson) then Inr profile
            else andThen (js_gt0 positive (peek (picture_elements profileJson) ''length''))
                   (\<lambda>some. if \<not> some then Inr profile
                      else andThen (reduce (picture_elements profileJson)
                                      (addPhotos_step positive) [])
                             (\<lambda>photos. Inr (js_set profile ''photos'' (JArr photos)))))"
  using assms
  by (simp add: addPhotos_def andThen_def js_get_present truthy_present picture_elements_def
        split: sum.splits)

lemma addPhotos_step_eq:
  assumes "identifiers_readable el"
  shows "addPhotos_step positive memo el =
           Inr (if has_identifiers el then memo @ [first_identifier el] else memo)"
proof (cases "truthy el")
  case False
  then show ?thesis
    by (simp add: addPhotos_step_def has_identifiers_def)
next
  case True
  then have present: "\<not> nullish el"
    by (rule truthy_present)
  show ?thesis
  proof (cases "peek el ''identifiers''")
    case (JArr ids)
    show ?thesis
    proof (cases ids)
      case Nil
      with True JArr show ?thesis
        by (simp add: addPhotos_step_def andThen_def js_get_present [OF present]
              has_identifiers_def)
    next
      case (Cons i rest)
      with assms JArr have "\<not> nullish i"
        by (simp add: identifiers_readable_def)
      moreover have "peek (JArr (i # rest)) ''0'' = i"
        by (simp add: peek_def)
      ultimately show ?thesis
        using True JArr Cons
        by (simp add: addPhotos_step_def andThen_def js_get_present [OF present]
              js_get_present [of i] has_identifiers_def first_identifier_def)
    qed
  qed (use assms True in \<open>simp_all add: addPhotos_step_def andThen_def
         js_get_present [OF present] has_identifiers_def identifiers_readable_def\<close>)
qed

lemma js_reduce_addPhotos:
  assumes "\<forall>el\<in>set els. identifiers_readable el"
  shows "js_reduce (addPhotos_step positive) memo els =
           Inr (memo @ map first_identifier (filter has_identifiers els))"
  using assms
  by (induction els arbitrary: memo) (simp_all add: addPhotos_step_eq)

text \<open>
  C7, as the code has it. \<^verbatim>\<open>photos\<close> holds one entry per image element that has a
  non-empty identifier list: \<^verbatim>\<open>{value: identifier}\<close> for the first identifier of that
  element, in the order of the elements. This is stated for element lists in which the
  identifiers of every element are readable: absent, or a list that is empty or starts
  with a value other than \<^verbatim>\<open>null\<close>. The field is not added when the nested picture
  structure of the profile document, its \<^verbatim>\<open>displayImage~\<close> wrapper or the element list
  is falsy, or when the list is empty. Both hold whatever strings the engine reads as
  positive numbers.
\<close>

theorem addPhotos_photos:
  "(\<not> nullish profileJson
      \<and> (\<not> truthy (peek profileJson ''profilePicture'')
           \<or> \<not> truthy (peek (peek profileJson ''profilePicture'') ''displayImage~'')
           \<or> \<not> truthy (picture_elements profileJson)
           \<or> picture_elements profileJson = JArr []) \<longrightarrow>
      addPhotos positive profile profileJson = Inr profile)
   \<and> (picture_elements profileJson = JArr els \<and> els \<noteq> []
      \<and> (\<forall>el\<in>set els. identifiers_readable el) \<longrightarrow>
      addPhotos positive profile profileJson =
        Inr (js_set profile ''photos''
               (JArr (map first_identifier (filter has_identifiers els)))))"
proof -
  have omitted: "addPhotos positive profile profileJson = Inr profile"
    if "\<not> nullish profileJson"
      and "\<not> truthy (peek profileJson ''profilePicture'')
           \<or> \<not> truthy (peek (peek profileJson ''profilePicture'') ''displayImage~'')
           \<or> \<not> truthy (picture_elements profileJson)
           \<or> picture_elements profileJson = JArr []"
    using that by (auto simp add: addPhotos_eq peek_def andThen_def)
  have listed: "addPhotos positive profile profileJson =
      Inr (js_set profile ''photos'' (JArr (map first_identifier (filter has_identifiers els))))"
    if elements: "picture_elements profileJson = JArr els" and "els \<noteq> []"
      and ok: "\<forall>el\<in>set els. identifiers_readable el"
  proof -
    have t: "truthy (picture_elements profileJson)"
      by (simp add: elements)
    have present: "\<not> nullish profileJson"
      using picture_elements_truthy(1) [OF t] truthy_present peek_present by blast
    have len: "js_gt0 positive (peek (picture_elements profileJson) ''length'') = Inr True"
      using \<open>els \<noteq> []\<close> by (simp add: elements peek_def)
    have photos: "reduce (picture_elements profileJson) (addPhotos_step positive) [] =
        Inr (map first_identifier (filter has_identifiers els))"
      by (simp add: elements reduce_def js_reduce_addPhotos [OF ok])
    have "addPhotos positive profile profileJson =
        andThen (js_gt0 positive (peek (picture_elements profileJson) ''length''))
          (\<lambda>some. if \<not> some then Inr profile
             else andThen (reduce (picture_elements profileJson) (addPhotos_step positive) [])
                    (\<lambda>photos. Inr (js_set profile ''photos'' (JArr photos))))"
      using picture_elements_truthy [OF t] t by (simp add: addPhotos_eq [OF present])
    then show ?thesis
      unfolding len photos by (simp add: andThen_def)
  qed
  show ?thesis
    using omitted listed by blast
qed

theorem addPhotos_photos_witness:
  "addPhotos plain_numeral_positive [(''provider'', JStr ''linkedin'')] two_images =
     Inr [(''provider'', JStr ''linkedin''),
          (''photos'', JArr [JObj [(''value'', JStr ''small-1'')],
                             JObj [(''value'', JStr ''large-1'')]])]
   \<and> addPhotos plain_numeral_positive [(''provider'', JStr ''linkedin'')] tina_profile =
     Inr [(''provider'', JStr ''linkedin'')]"
  using
    addPhotos_photos [where profileJson = two_images and positive = plain_numeral_positive
      and profile = "[(''provider'', JStr ''linkedin'')]"
      and els = "[JObj [(''identifiers'',
                              JArr [JObj [(''identifier'', JStr ''small-1'')],
                                    JObj [(''identifier'', JStr ''small-2'')]])],
                      JObj [(''identifiers'', JArr [])],
                      JObj [(''identifiers'',
                              JArr [JObj [(''identifier'', JStr ''large-1'')]])]]"]
    addPhotos_photos [where profileJson = tina_profile and positive = plain_numeral_positive
      and profile = "[(''provider'', JStr ''linkedin'')]"]
  by (simp add: two_images_def tina_profile_def picture_elements_def has_identifiers_def
        identifiers_readable_def first_identifier_def peek_def js_set_def)

text \<open>
  The claim as stated fails: the first image element of the sample document has two
  identifiers and the third has one. The code keeps the first identifier of each of the
  two, where the claim keeps both identifiers of the first element.
\<close>

theorem addPhotos_photos_counterexample:
  "addPhotos plain_numeral_positive [] two_images =
     Inr [(''photos'', JArr [JObj [(''value'', JStr ''small-1'')],
                             JObj [(''value'', JStr ''large-1'')]])]
   \<and> photos_of_first_element two_images =
       [JObj [(''value'', JStr ''small-1'')], JObj [(''value'', JStr ''small-2'')]]
   \<and> addPhotos plain_numeral_positive [] two_images \<noteq>
       Inr [(''photos'', JArr (photos_of_first_element two_images))]"
  by (simp add: addPhotos_def addPhotos_step_def andThen_def reduce_def two_images_def
        photos_of_first_element_def picture_elements_def peek_def js_set_def)

subsection \<open>The sample provider\<close>

lemma urls_differ: "email_url \<noteq> profile_url"
  by (simp add: email_url_def profile_url_def)

lemma getLocalizedName_tina:
  "getLocalizedName
     (JObj [(''localized'', JObj [(''en_US'', JStr given)]),
            (''preferredLocale'', JObj [(''language'', JStr ''en''), (''country'', JStr ''US'')])])
   = Inr (JStr given)"
  by (simp add: getLocalizedName_def andThen_def js_concat_def)

lemma userProfile_build_tina:
  assumes "JSON_parse that = sample_parse"
  shows "userProfile_build that ''profile of Tina'' ''email of Tina'' = Inr tina_normalized"
proof -
  have emails: "addEmails profile tina_email =
      Inr (js_set profile ''emails'' (JArr [JObj [(''value'', JStr ''tina@example.com'')]]))"
    for profile
    by (simp add: addEmails_def addEmails_step_def andThen_def reduce_def tina_email_def)
  have photos: "addPhotos positive profile tina_profile = Inr profile" for positive profile
    by (simp add: addPhotos_def andThen_def tina_profile_def)
  have reads: "js_get tina_profile ''id'' = Inr (JStr ''42'')"
    "js_get tina_profile ''lastName'' =
       Inr (JObj [(''localized'', JObj [(''en_US'', JStr ''Belcher'')]),
                  (''preferredLocale'',
                     JObj [(''language'', JStr ''en''), (''country'', JStr ''US'')])])"
    "js_get tina_profile ''firstName'' =
       Inr (JObj [(''localized'', JObj [(''en_US'', JStr ''Tina'')]),
                  (''preferredLocale'',
                     JObj [(''language'', JStr ''en''), (''country'', JStr ''US'')])])"
    by (simp_all add: tina_profile_def)
  show ?thesis
    unfolding userProfile_build_def assms
    by (simp add: sample_parse_def andThen_def reads getLocalizedName_tina emails photos
          js_concat_def js_set_def tina_normalized_def)
qed

lemma userProfile_tina:
  assumes "JSON_parse that = sample_parse" and "oauth2_reply that = provider_up"
    and "profileUrl that = profile_url" and "emailUrl that = email_url"
  shows "userProfile that accessToken done w =
           try_catch (done JNull tina_normalized) (\<lambda>e. done e JUndefined)
             (w\<lparr>accessTokenName := ''oauth2_access_token'',
                 gets := gets w @ [(profile_url, accessToken), (email_url, accessToken)]\<rparr>)"
  by (simp add: userProfile_def oauth2_get_def assms provider_up_def urls_differ
        userProfile_build_tina [OF assms(1)] setAccessTokenName_def try_catch_def)

text \<open>
  The call \<^verbatim>\<open>done(null, profile)\<close> of \<^verbatim>\<open>userProfile\<close> stands inside the \<^verbatim>\<open>try\<close>
  block (line 186). When the callback it runs throws after it has called a sink, the
  \<^verbatim>\<open>catch\<close> clause calls \<^verbatim>\<open>done(e)\<close> and a second sink call follows: an
  application whose verify callback throws after \<^verbatim>\<open>verified(null, user)\<close> gets
  \<^verbatim>\<open>success\<close> and then \<^verbatim>\<open>fail\<close>.
\<close>

lemma done_called_again_after_throw:
  "userProfile app (JStr ''tok123'') accepting_then_throwing w0 =
     Returned \<lparr>accessTokenName = ''oauth2_access_token'',
                gets = [(profile_url, JStr ''tok123''), (email_url, JStr ''tok123'')],
                sinks = [Success (JObj [(''id'', JStr ''42'')]) JUndefined,
                         Fail application_error]\<rparr>"
  by (simp add: userProfile_tina app_def try_catch_def accepting_then_throwing_def success_def
        fail_def w0_def application_error_def)

lemma extract_tokens_query_request:
  "extract_tokens query_request = Inr (JStr ''tok123'', JUndefined)"
  by (simp add: extract_tokens_def query_request_def andThen_def or3_def member_def)

lemma authenticate_query_request:
  "authenticate self query_request options w =
     loadUserProfile self (JStr ''tok123'')
       (authenticate_loaded self query_request (JStr ''tok123'') JUndefined) w"
proof -
  have "\<not> nullish query_request" and "\<not> error_indicator query_request"
    by (simp_all add: query_request_def error_indicator_def peek_object)
  then show ?thesis
    by (simp add: authenticate_eq extract_tokens_query_request)
qed

text \<open>
  The end-to-end scenario of the specification: the token \<^verbatim>\<open>tok123\<close> in the query
  string, a provider that answers both requests, and an application that accepts.
\<close>

lemma end_to_end_scenario:
  "authenticate app query_request JUndefined w0 =
     Returned \<lparr>accessTokenName = ''oauth2_access_token'',
                gets = [(profile_url, JStr ''tok123''), (email_url, JStr ''tok123'')],
                sinks = [Success (JArr [JStr ''tok123'', JUndefined, tina_normalized])
                           JUndefined]\<rparr>"
proof -
  have load: "loadUserProfile app accessToken k w =
      try_catch (k JNull tina_normalized) (\<lambda>e. k e JUndefined)
        (w\<lparr>accessTokenName := ''oauth2_access_token'',
            gets := gets w @ [(profile_url, accessToken), (email_url, accessToken)]\<rparr>)"
    for accessToken k w
    by (simp add: loadUserProfile_def userProfile_tina app_def)
  show ?thesis
    unfolding authenticate_query_request load
    by (simp add: try_catch_def authenticate_loaded_def app_def accept_arguments_def
          verified_def success_def w0_def)
qed

subsection \<open>Errors of the profile-load step\<close>

lemma authenticate_proceeds:
  assumes "proceeds_with req accessToken refreshToken"
  shows "authenticate self req options w =
           loadUserProfile self accessToken
             (authenticate_loaded self req accessToken refreshToken) w"
proof -
  have "\<not> nullish req"
    using assms extract_tokens_nullish [of req] by (auto simp add: proceeds_with_def)
  then show ?thesis
    using assms by (simp add: authenticate_eq proceeds_with_def)
qed

lemma loadUserProfile_loads:
  assumes "loads_profile self accessToken"
  shows "loadUserProfile self accessToken done w = userProfile self accessToken done w"
  using assms
  by (auto simp add: loadUserProfile_def loads_profile_def split: skip_setting.splits)

text \<open>
  C1, as the code has it. When the profile loader hands a truthy error to the callback
  that \<^verbatim>\<open>authenticate\<close> gave it (line 91), the callback calls the sink \<^verbatim>\<open>fail\<close> with
  that error (line 93), and calls neither \<^verbatim>\<open>error\<close> nor \<^verbatim>\<open>success\<close> nor the
  application's verify callback. So a request that passes the local checks ends in one
  call of \<^verbatim>\<open>fail\<close> with the error of the profile-load step: the error reported by an
  asynchronous skip predicate, the wrapped transport error of the profile request or of
  the email request, or the exception thrown while the bodies are parsed and the profile
  is built.
\<close>

theorem loader_error_goes_to_fail:
  "(truthy err \<longrightarrow>
      authenticate_loaded self req accessToken refreshToken err profile w =
        Returned (w\<lparr>sinks := sinks w @ [Fail err]\<rparr>))
   \<and> (proceeds_with req accessToken refreshToken
        \<and> skipUserProfile self = SkipFunction n returns calls_back \<and> 2 \<le> n
        \<and> calls_back [accessToken] = (err, skip) \<and> truthy err \<longrightarrow>
      authenticate self req options w = Returned (w\<lparr>sinks := sinks w @ [Fail err]\<rparr>))
   \<and> (proceeds_with req accessToken refreshToken \<and> loads_profile self accessToken
        \<and> oauth2_reply self (setAccessTokenName ''oauth2_access_token'' w) (profileUrl self)
             accessToken = (profileErr, profileBody)
        \<and> truthy profileErr \<longrightarrow>
      authenticate self req options w =
        Returned (w\<lparr>accessTokenName := ''oauth2_access_token'',
                    gets := gets w @ [(profileUrl self, accessToken)],
                    sinks := sinks w @
                      [Fail (InternalOAuthError ''failed to fetch user profile'' profileErr)]\<rparr>))
   \<and> (proceeds_with req accessToken refreshToken \<and> loads_profile self accessToken
        \<and> oauth2_reply self (setAccessTokenName ''oauth2_access_token'' w) (profileUrl self)
             accessToken = (profileErr, profileBody)
        \<and> \<not> truthy profileErr
        \<and> oauth2_reply self
             (w\<lparr>accessTokenName := ''oauth2_access_token'',
                 gets := gets w @ [(profileUrl self, accessToken)]\<rparr>)
             (emailUrl self) accessToken = (emailErr, emailBody)
        \<and> truthy emailErr \<longrightarrow>
      authenticate self req options w =
        Returned (w\<lparr>accessTokenName := ''oauth2_access_token'',
                    gets := gets w @ [(profileUrl self, accessToken), (emailUrl self, accessToken)],
                    sinks := sinks w @
                      [Fail (InternalOAuthError ''failed to fetch user email'' emailErr)]\<rparr>))
   \<and> (proceeds_with req accessToken refreshToken \<and> loads_profile self accessToken
        \<and> oauth2_reply self (setAccessTokenName ''oauth2_access_token'' w) (profileUrl self)
             accessToken = (profileErr, profileBody)
        \<and> \<not> truthy profileErr
        \<and> oauth2_reply self
             (w\<lparr>accessTokenName := ''oauth2_access_token'',
                 gets := gets w @ [(profileUrl self, accessToken)]\<rparr>)
             (emailUrl self) accessToken = (emailErr, emailBody)
        \<and> \<not> truthy emailErr
        \<and> userProfile_build self profileBody emailBody = Inl thrown \<and> truthy thrown \<longrightarrow>
      authenticate self req options w =
        Returned (w\<lparr>accessTokenName := ''oauth2_access_token'',
                    gets := gets w @ [(profileUrl self, accessToken), (emailUrl self, accessToken)],
                    sinks := sinks w @ [Fail thrown]\<rparr>))"
proof -
  have callback: "authenticate_loaded self req accessToken refreshToken e p v =
      Returned (v\<lparr>sinks := sinks v @ [Fail e]\<rparr>)" if "truthy e" for e p v
    using that by (simp add: authenticate_loaded_def fail_def)
  have gate: "authenticate self req options w = Returned (w\<lparr>sinks := sinks w @ [Fail err]\<rparr>)"
    if "proceeds_with req accessToken refreshToken"
      and "skipUserProfile self = SkipFunction n returns calls_back" and "2 \<le> n"
      and "calls_back [accessToken] = (err, skip)" and "truthy err"
    using that by (simp add: authenticate_proceeds loadUserProfile_def callback)
  have load: "authenticate self req options w =
      userProfile self accessToken (authenticate_loaded self req accessToken refreshToken) w"
    if "proceeds_with req accessToken refreshToken" and "loads_profile self accessToken"
    using that by (simp add: authenticate_proceeds loadUserProfile_loads)
  have profile_fetch: "userProfile self accessToken
        (authenticate_loaded self req accessToken refreshToken) w =
      Returned (w\<lparr>accessTokenName := ''oauth2_access_token'',
                  gets := gets w @ [(profileUrl self, accessToken)],
                  sinks := sinks w @
                    [Fail (InternalOAuthError ''failed to fetch user profile'' profileErr)]\<rparr>)"
    if "oauth2_reply self (setAccessTokenName ''oauth2_access_token'' w) (profileUrl self)
          accessToken = (profileErr, profileBody)"
      and "truthy profileErr"
    using that by (simp add: userProfile_def oauth2_get_def callback setAccessTokenName_def)
  have email_fetch: "userProfile self accessToken
        (authenticate_loaded self req accessToken refreshToken) w =
      Returned (w\<lparr>accessTokenName := ''oauth2_access_token'',
                  gets := gets w @ [(profileUrl self, accessToken), (emailUrl self, accessToken)],
                  sinks := sinks w @
                    [Fail (InternalOAuthError ''failed to fetch user email'' emailErr)]\<rparr>)"
    if "oauth2_reply self (setAccessTokenName ''oauth2_access_token'' w) (profileUrl self)
          accessToken = (profileErr, profileBody)"
      and "\<not> truthy profileErr"
      and "oauth2_reply self
             (w\<lparr>accessTokenName := ''oauth2_access_token'',
                 gets := gets w @ [(profileUrl self, accessToken)]\<rparr>)
             (emailUrl self) accessToken = (emailErr, emailBody)"
      and "truthy emailErr"
    using that by (simp add: userProfile_def oauth2_get_def callback setAccessTokenName_def)
  have build: "userProfile self accessToken
        (authenticate_loaded self req accessToken refreshToken) w =
      Returned (w\<lparr>accessTokenName := ''oauth2_access_token'',
                  gets := gets w @ [(profileUrl self, accessToken), (emailUrl self, accessToken)],
                  sinks := sinks w @ [Fail thrown]\<rparr>)"
    if "oauth2_reply self (setAccessTokenName ''oauth2_access_token'' w) (profileUrl self)
          accessToken = (profileErr, profileBody)"
      and "\<not> truthy profileErr"
      and "oauth2_reply self
             (w\<lparr>accessTokenName := ''oauth2_access_token'',
                 gets := gets w @ [(profileUrl self, accessToken)]\<rparr>)
             (emailUrl self) accessToken = (emailErr, emailBody)"
      and "\<not> truthy emailErr"
      and "userProfile_build self profileBody emailBody = Inl thrown" and "truthy thrown"
    using that
    by (simp add: userProfile_def oauth2_get_def callback setAccessTokenName_def try_catch_def)
  show ?thesis
    using callback gate load profile_fetch email_fetch build by simp
qed

theorem loader_error_goes_to_fail_witness:
  "authenticate_loaded app query_request (JStr ''tok123'') JUndefined unauthorized JUndefined w0 =
     Returned \<lparr>accessTokenName = ''access_token'', gets = [], sinks = [Fail unauthorized]\<rparr>
   \<and> authenticate app_gate_error query_request JUndefined w0 =
     Returned \<lparr>accessTokenName = ''access_token'', gets = [], sinks = [Fail gate_failure]\<rparr>
   \<and> authenticate app_provider_down query_request JUndefined w0 =
     Returned \<lparr>accessTokenName = ''oauth2_access_token'',
                gets = [(profile_url, JStr ''tok123'')],
                sinks = [Fail (InternalOAuthError ''failed to fetch user profile'' unauthorized)]\<rparr>
   \<and> authenticate app_email_down query_request JUndefined w0 =
     Returned \<lparr>accessTokenName = ''oauth2_access_token'',
                gets = [(profile_url, JStr ''tok123''), (email_url, JStr ''tok123'')],
                sinks = [Fail (InternalOAuthError ''failed to fetch user email'' unauthorized)]\<rparr>
   \<and> authenticate app_provider_garbled query_request JUndefined w0 =
     Returned \<lparr>accessTokenName = ''oauth2_access_token'',
                gets = [(profile_url, JStr ''tok123''), (email_url, JStr ''tok123'')],
                sinks = [Fail SyntaxError]\<rparr>"
proof -
  have proceeds: "proceeds_with query_request (JStr ''tok123'') JUndefined"
    unfolding proceeds_with_def extract_tokens_query_request
    by (simp add: error_indicator_def query_request_def peek_object)
  have loads: "loads_profile app_provider_down (JStr ''tok123'')"
    "loads_profile app_email_down (JStr ''tok123'')"
    "loads_profile app_provider_garbled (JStr ''tok123'')"
    by (simp_all add: loads_profile_def app_provider_down_def app_email_down_def
          app_provider_garbled_def app_def)
  have garbled: "userProfile_build app_provider_garbled ''<html>Bad Gateway</html>''
      ''email of Tina'' = Inl SyntaxError"
    by (simp add: userProfile_build_def app_provider_garbled_def app_def sample_parse_def
          andThen_def)
  have truthy: "truthy unauthorized" "truthy gate_failure" "truthy SyntaxError"
    by (simp_all add: unauthorized_def gate_failure_def SyntaxError_def)
  note at_request = loader_error_goes_to_fail [where req = query_request
      and accessToken = "JStr ''tok123''" and refreshToken = JUndefined and w = w0
      and options = JUndefined and profile = JUndefined]
  have "authenticate_loaded app query_request (JStr ''tok123'') JUndefined unauthorized
      JUndefined w0 = Returned (w0\<lparr>sinks := sinks w0 @ [Fail unauthorized]\<rparr>)"
    using at_request [where self = app and err = unauthorized] truthy by simp
  moreover have "authenticate app_gate_error query_request JUndefined w0 =
      Returned (w0\<lparr>sinks := sinks w0 @ [Fail gate_failure]\<rparr>)"
    using at_request [where self = app_gate_error and err = gate_failure and n = 2
        and returns = skip_if_token and calls_back = failing_predicate and skip = JUndefined]
      proceeds truthy
    by (simp add: app_gate_error_def app_def failing_predicate_def)
  moreover have "authenticate app_provider_down query_request JUndefined w0 =
      Returned (w0\<lparr>accessTokenName := ''oauth2_access_token'',
                   gets := gets w0 @ [(profile_url, JStr ''tok123'')],
                   sinks := sinks w0 @
                     [Fail (InternalOAuthError ''failed to fetch user profile'' unauthorized)]\<rparr>)"
    using at_request [where self = app_provider_down and profileErr = unauthorized
        and profileBody = "[]"]
      proceeds loads truthy
    by (simp add: app_provider_down_def app_def provider_down_def)
  moreover have "authenticate app_email_down query_request JUndefined w0 =
      Returned (w0\<lparr>accessTokenName := ''oauth2_access_token'',
                   gets := gets w0 @ [(profile_url, JStr ''tok123''), (email_url, JStr ''tok123'')],
                   sinks := sinks w0 @
                     [Fail (InternalOAuthError ''failed to fetch user email'' unauthorized)]\<rparr>)"
    using at_request [where self = app_email_down and profileErr = JNull
        and profileBody = "''profile of Tina''" and emailErr = unauthorized and emailBody = "[]"]
      proceeds loads truthy
    by (simp add: app_email_down_def app_def email_down_def urls_differ)
  moreover have "authenticate app_provider_garbled query_request JUndefined w0 =
      Returned (w0\<lparr>accessTokenName := ''oauth2_access_token'',
                   gets := gets w0 @ [(profile_url, JStr ''tok123''), (email_url, JStr ''tok123'')],
                   sinks := sinks w0 @ [Fail SyntaxError]\<rparr>)"
    using at_request [where self = app_provider_garbled and profileErr = JNull
        and profileBody = "''<html>Bad Gateway</html>''" and emailErr = JNull
        and emailBody = "''email of Tina''" and thrown = SyntaxError]
      proceeds loads truthy garbled
    by (simp add: app_provider_garbled_def app_def provider_garbled_def urls_differ)
  ultimately show ?thesis
    by (simp add: w0_def)
qed

text \<open>
  The claim as stated fails: the token \<^verbatim>\<open>tok123\<close> arrives in the query string, the
  provider rejects the profile request, and the request ends in \<^verbatim>\<open>fail\<close> with the
  wrapped transport error, not in \<^verbatim>\<open>error\<close>.
\<close>

theorem loader_error_counterexample:
  "authenticate app_provider_down query_request JUndefined w0 =
     Returned \<lparr>accessTokenName = ''oauth2_access_token'',
                gets = [(profile_url, JStr ''tok123'')],
                sinks = [Fail (InternalOAuthError ''failed to fetch user profile'' unauthorized)]\<rparr>
   \<and> authenticate app_provider_down query_request JUndefined w0 \<noteq>
     Returned \<lparr>accessTokenName = ''oauth2_access_token'',
                gets = [(profile_url, JStr ''tok123'')],
                sinks = [Error (InternalOAuthError ''failed to fetch user profile'' unauthorized)]\<rparr>"
  by (simp add: authenticate_def andThen_def query_request_def extract_tokens_def or3_def
        member_def loadUserProfile_def app_provider_down_def app_def userProfile_def
        oauth2_get_def provider_down_def setAccessTokenName_def w0_def authenticate_loaded_def
        fail_def unauthorized_def)

subsection \<open>The profile-load gate\<close>

text \<open>
  C8, as the code has it. A skip predicate that is a function of fewer than two
  parameters is called with no argument, and its result decides. Whenever the resolved
  value is truthy (the result of such a function, the plain option value such as
  \<^verbatim>\<open>true\<close>, or the value an asynchronous predicate passes on without an error), the
  gate calls \<^verbatim>\<open>done(null)\<close>: the error is \<^verbatim>\<open>null\<close>, the profile is \<^verbatim>\<open>undefined\<close>, and
  the world is the one the gate was called in, so the HTTP capability is not called.
\<close>

theorem skip_gate:
  "(skipUserProfile self = SkipFunction n returns calls_back \<and> n < 2 \<longrightarrow>
      loadUserProfile self accessToken done w =
        (if truthy (returns []) then done JNull JUndefined w
         else userProfile self accessToken done w))
   \<and> (skipUserProfile self = SkipValue skip \<and> truthy skip \<longrightarrow>
      loadUserProfile self accessToken done w = done JNull JUndefined w)
   \<and> (skipUserProfile self = SkipFunction n returns calls_back \<and> 2 \<le> n
        \<and> calls_back [accessToken] = (err, skip) \<and> \<not> truthy err \<and> truthy skip \<longrightarrow>
      loadUserProfile self accessToken done w = done JNull JUndefined w)"
  by (auto simp add: loadUserProfile_def)

theorem skip_gate_witness:
  "loadUserProfile app_skip_true (JStr ''tok123'')
     (authenticate_loaded app_skip_true query_request (JStr ''tok123'') JUndefined) w0 =
     Returned \<lparr>accessTokenName = ''access_token'', gets = [],
                sinks = [Success (JArr [JStr ''tok123'', JUndefined, JUndefined]) JUndefined]\<rparr>"
  using skip_gate [where self = app_skip_true and skip = "JBool True" and w = w0
          and accessToken = "JStr ''tok123''"
          and ?done = "authenticate_loaded app_skip_true query_request (JStr ''tok123'') JUndefined"]
  by (simp add: app_skip_true_def app_def authenticate_loaded_def accept_arguments_def
        verified_def success_def w0_def)

text \<open>
  The claim as stated fails twice. With \<^verbatim>\<open>skipUserProfile: true\<close> the verify callback
  receives \<^verbatim>\<open>undefined\<close> as the profile, not \<^verbatim>\<open>null\<close>. And the predicate
  \<open>skip_if_token\<close>, which skips when it is given the token, is called without it: it
  answers \<^verbatim>\<open>false\<close>, and both URLs are requested.
\<close>

theorem skip_gate_counterexample:
  "authenticate app_skip_true query_request JUndefined w0 =
     Returned \<lparr>accessTokenName = ''access_token'', gets = [],
                sinks = [Success (JArr [JStr ''tok123'', JUndefined, JUndefined]) JUndefined]\<rparr>
   \<and> authenticate app_skip_true query_request JUndefined w0 \<noteq>
     Returned \<lparr>accessTokenName = ''access_token'', gets = [],
                sinks = [Success (JArr [JStr ''tok123'', JUndefined, JNull]) JUndefined]\<rparr>
   \<and> truthy (skip_if_token [JStr ''tok123''])
   \<and> authenticate app_skip_if_token query_request JUndefined w0 =
     Returned \<lparr>accessTokenName = ''oauth2_access_token'',
                gets = [(profile_url, JStr ''tok123''), (email_url, JStr ''tok123'')],
                sinks = [Success (JArr [JStr ''tok123'', JUndefined, tina_normalized])
                           JUndefined]\<rparr>"
proof -
  have skipped: "authenticate app_skip_true query_request JUndefined w0 =
      Returned \<lparr>accessTokenName = ''access_token'', gets = [],
                 sinks = [Success (JArr [JStr ''tok123'', JUndefined, JUndefined]) JUndefined]\<rparr>"
    unfolding authenticate_query_request
    by (simp add: loadUserProfile_def app_skip_true_def app_def authenticate_loaded_def
          accept_arguments_def verified_def success_def w0_def)
  have loaded: "authenticate app_skip_if_token query_request JUndefined w0 =
      Returned \<lparr>accessTokenName = ''oauth2_access_token'',
                 gets = [(profile_url, JStr ''tok123''), (email_url, JStr ''tok123'')],
                 sinks = [Success (JArr [JStr ''tok123'', JUndefined, tina_normalized])
                            JUndefined]\<rparr>"
    unfolding authenticate_query_request
    by (simp add: loadUserProfile_def userProfile_tina app_skip_if_token_def app_def
          skip_if_token_def try_catch_def authenticate_loaded_def accept_arguments_def
          verified_def success_def w0_def)
  show ?thesis
    unfolding skipped loaded by (simp add: skip_if_token_def)
qed

subsection \<open>The localization resolver\<close>






text \<open>
  The inherited names: with the language \<^verbatim>\<open>_\<close> and the country \<^verbatim>\<open>proto__\<close> the key
  is \<^verbatim>\<open>__proto__\<close>, and an empty mapping gives the prototype of objects.
\<close>

lemma getLocalizedName_inherited:
  "getLocalizedName
     (JObj [(''localized'', JObj []),
            (''preferredLocale'',
               JObj [(''language'', JStr ''_''), (''country'', JStr ''proto__'')])])
   = Inr (JBuiltin ''Object.prototype'')"
  by (simp add: getLocalizedName_def andThen_def js_concat_def inherited_def
        legacy_accessors_def)

subsection \<open>Requests without a query object or without headers\<close>

lemma token_of_no_query:
  assumes "nullish (peek req ''query'')"
  shows "token_of req k = (if needs_query req k then Inl TypeError else Inr (body_token req k))"
  using assms
  by (simp add: token_of_def needs_query_def needs_headers_def first_non_empty_def)

lemma token_of_no_headers:
  assumes "\<not> nullish (peek req ''query'')" and "nullish (peek req ''headers'')"
  shows "token_of req k =
           (if needs_headers req k then Inl TypeError
            else Inr (first_non_empty (body_token req k) (query_token req k) JUndefined))"
  using assms
  by (auto simp add: token_of_def needs_headers_def first_non_empty_def)

text \<open>
  C10, as the code has it. The query object is read when the body gives no access token
  or no refresh token, and the headers object when body and query give none of one of
  the two. So \<^verbatim>\<open>authenticate\<close> throws a \<^verbatim>\<open>TypeError\<close>, before any sink is called and
  in an unchanged world, for a request without a query object whose body lacks one of
  the two tokens, and for a request with a query object, no error indicator and no
  headers for which body and query lack one of the two tokens. A request whose body
  holds both tokens needs neither object: the body values are selected.
\<close>

theorem authenticate_missing_objects:
  assumes "\<not> nullish req"
  shows "(nullish (peek req ''query'')
            \<and> (needs_query req ''access_token'' \<or> needs_query req ''refresh_token'') \<longrightarrow>
          authenticate self req options w = Threw TypeError w)
       \<and> (\<not> nullish (peek req ''query'') \<and> \<not> error_indicator req
            \<and> nullish (peek req ''headers'')
            \<and> (needs_headers req ''access_token'' \<or> needs_headers req ''refresh_token'') \<longrightarrow>
          authenticate self req options w = Threw TypeError w)
       \<and> (truthy (body_token req ''access_token'') \<and> truthy (body_token req ''refresh_token'') \<longrightarrow>
          extract_tokens req =
            Inr (body_token req ''access_token'', body_token req ''refresh_token''))"
proof -
  have no_query: "authenticate self req options w = Threw TypeError w"
    if q: "nullish (peek req ''query'')"
      and "needs_query req ''access_token'' \<or> needs_query req ''refresh_token''"
  proof -
    from q have "\<not> error_indicator req"
      by (cases "peek req ''query''") (simp_all add: error_indicator_def)
    moreover have "extract_tokens req = Inl TypeError"
      using that by (auto simp add: extract_tokens_eq [OF assms] token_of_no_query andThen_def)
    ultimately show ?thesis
      by (simp add: authenticate_eq [OF assms])
  qed
  have no_headers: "authenticate self req options w = Threw TypeError w"
    if q: "\<not> nullish (peek req ''query'')" and e: "\<not> error_indicator req"
      and h: "nullish (peek req ''headers'')"
      and "needs_headers req ''access_token'' \<or> needs_headers req ''refresh_token''"
  proof -
    have "extract_tokens req = Inl TypeError"
      using that
      by (auto simp add: extract_tokens_eq [OF assms] token_of_no_headers [OF q h] andThen_def)
    with e show ?thesis
      by (simp add: authenticate_eq [OF assms])
  qed
  have body: "extract_tokens req =
      Inr (body_token req ''access_token'', body_token req ''refresh_token'')"
    if "truthy (body_token req ''access_token'')" and "truthy (body_token req ''refresh_token'')"
    using that
    by (simp add: extract_tokens_eq [OF assms] token_of_def needs_query_def needs_headers_def
          first_non_empty_def andThen_def)
  show ?thesis
    using no_query no_headers body by blast
qed

theorem authenticate_missing_objects_witness:
  "authenticate app access_in_body_request JUndefined w0 = Threw TypeError w0
   \<and> extract_tokens both_in_body_request = Inr (JStr ''tok123'', JStr ''ref456'')"
  using
    authenticate_missing_objects [where req = access_in_body_request and self = app
      and options = JUndefined and w = w0]
    authenticate_missing_objects [where req = both_in_body_request and self = app
      and options = JUndefined and w = w0]
  by (simp add: access_in_body_request_def both_in_body_request_def peek_object
        needs_query_def body_token_def)

text \<open>
  The claim as stated fails: the request carries both tokens in its body and has neither
  a query object nor headers. The two objects are not read, the body tokens are
  selected, the profile is loaded and the request ends in \<^verbatim>\<open>success\<close>.
\<close>

theorem authenticate_missing_objects_counterexample:
  "peek both_in_body_request ''query'' = JUndefined
   \<and> peek both_in_body_request ''headers'' = JUndefined
   \<and> extract_tokens both_in_body_request = Inr (JStr ''tok123'', JStr ''ref456'')
   \<and> authenticate app both_in_body_request JUndefined w0 =
       Returned \<lparr>accessTokenName = ''oauth2_access_token'',
                  gets = [(profile_url, JStr ''tok123''), (email_url, JStr ''tok123'')],
                  sinks = [Success (JArr [JStr ''tok123'', JStr ''ref456'', tina_normalized])
                             JUndefined]\<rparr>"
proof -
  have tokens: "extract_tokens both_in_body_request = Inr (JStr ''tok123'', JStr ''ref456'')"
    by (simp add: extract_tokens_def both_in_body_request_def andThen_def or3_def)
  have "\<not> nullish both_in_body_request" and "\<not> error_indicator both_in_body_request"
    by (simp_all add: both_in_body_request_def error_indicator_def peek_object)
  then have "authenticate app both_in_body_request JUndefined w0 =
      loadUserProfile app (JStr ''tok123'')
        (authenticate_loaded app both_in_body_request (JStr ''tok123'') (JStr ''ref456'')) w0"
    by (simp add: authenticate_eq tokens)
  then have "authenticate app both_in_body_request JUndefined w0 =
       Returned \<lparr>accessTokenName = ''oauth2_access_token'',
                  gets = [(profile_url, JStr ''tok123''), (email_url, JStr ''tok123'')],
                  sinks = [Success (JArr [JStr ''tok123'', JStr ''ref456'', tina_normalized])
                             JUndefined]\<rparr>"
    by (simp add: loadUserProfile_def userProfile_tina app_def try_catch_def
          authenticate_loaded_def accept_arguments_def verified_def success_def w0_def)
  with tokens show ?thesis
    by (simp add: both_in_body_request_def peek_object)
qed
end
